theory Spec2Isabelle
  imports Main
begin

section \<open>Python values the program computes with\<close>

subsection \<open>Integers as text\<close>

text \<open>
  The program formats integers (the steps of a syringe) and floats (flows, the period)
  into G-code lines with f-strings. \<open>str_nat\<close> and \<open>str_int\<close> are Python's
  \<^verbatim>\<open>str\<close> on an \<^verbatim>\<open>int\<close>: the decimal digits, with a leading minus sign for a
  negative number.
\<close>

definition digit_char :: "nat \<Rightarrow> char" where
  "digit_char d = ''0123456789'' ! d"

fun str_nat :: "nat \<Rightarrow> string" where
  "str_nat n = (if n < 10 then [digit_char n] else str_nat (n div 10) @ [digit_char (n mod 10)])"

declare str_nat.simps [simp del]

definition str_int :: "int \<Rightarrow> string" where
  "str_int i = (if i < 0 then ''-'' @ str_nat (nat (- i)) else str_nat (nat i))"

subsection \<open>Floats\<close>

text \<open>
  A Python \<^verbatim>\<open>float\<close> is an IEEE-754 binary64 value. \<open>Finite sg m e\<close> is the number
  \<open>(-1)^sg * m * 2^e\<close>, kept in the normal form of the format: \<open>m = 0\<close> and \<open>e = 0\<close>
  for a (signed) zero, \<open>2^52 \<le> m < 2^53\<close> and \<open>-1074 \<le> e \<le> 971\<close> for a normal number,
  \<open>0 < m < 2^52\<close> and \<open>e = -1074\<close> for a subnormal one.
\<close>

datatype pyfloat = Finite bool nat int | Infinity bool | NaN

fun bit_length :: "nat \<Rightarrow> nat" where
  "bit_length n = (if n = 0 then 0 else Suc (bit_length (n div 2)))"

declare bit_length.simps [simp del]

text \<open>
  The integer nearest to \<open>a / b\<close>, a tie going to the even one: \<open>nearest_even q r b\<close>
  decides from the quotient \<open>q\<close> and the remainder \<open>r\<close> of the division by \<open>b\<close>.
\<close>

definition nearest_even :: "nat \<Rightarrow> nat \<Rightarrow> nat \<Rightarrow> nat" where
  "nearest_even q r b =
     (if 2 * r < b then q else if b < 2 * r then q + 1 else if even q then q else q + 1)"

definition round_half_even :: "nat \<Rightarrow> nat \<Rightarrow> nat" where
  "round_half_even a b = nearest_even (a div b) (a mod b) b"

text \<open>
  \<open>round_to_double sg p q k\<close> is the double nearest to \<open>(-1)^sg * (p / q) * 2^k\<close>
  (round to nearest, ties to even: the rounding of every IEEE operation and of reading
  a decimal literal), for \<open>q > 0\<close>. With \<open>d\<close> the difference of the bit lengths of
  \<open>p\<close> and \<open>q\<close>, the quotient \<open>p / q\<close> lies between \<open>2^(d-1)\<close> and \<open>2^(d+1)\<close>, so
  scaling it by \<open>2^(53-d)\<close> or by \<open>2^(52-d)\<close> gives a number of exactly 53 bits
  (\<open>binary_shift\<close>); in the subnormal range the scaling stops at the least exponent
  \<open>-1074\<close>. The scaled quotient is rounded to an integer (\<open>round_scaled\<close>) and packed
  (\<open>pack_double\<close>): a mantissa rounded up to \<open>2^53\<close> is renormalised, a result beyond the
  largest double is an infinity, one that vanishes is a zero.
\<close>

definition scaled_quotient :: "nat \<Rightarrow> nat \<Rightarrow> int \<Rightarrow> nat" where
  "scaled_quotient p q s =
     (if 0 \<le> s then (p * 2 ^ nat s) div q else p div (q * 2 ^ nat (- s)))"

definition round_scaled :: "nat \<Rightarrow> nat \<Rightarrow> int \<Rightarrow> nat" where
  "round_scaled p q s =
     (if 0 \<le> s then round_half_even (p * 2 ^ nat s) q else round_half_even p (q * 2 ^ nat (- s)))"

definition pick_shift :: "nat \<Rightarrow> nat \<Rightarrow> int \<Rightarrow> int" where
  "pick_shift p q s0 = (if scaled_quotient p q s0 < 2 ^ 53 then s0 else s0 - 1)"

definition binary_shift :: "nat \<Rightarrow> nat \<Rightarrow> int" where
  "binary_shift p q = pick_shift p q (53 - (int (bit_length p) - int (bit_length q)))"

definition pack_double :: "bool \<Rightarrow> nat \<Rightarrow> int \<Rightarrow> pyfloat" where
  "pack_double sg m e =
     (if m = 0 then Finite sg 0 0
      else if m = 2 ^ 53 then (if 971 < e + 1 then Infinity sg else Finite sg (2 ^ 52) (e + 1))
      else if 971 < e then Infinity sg
      else Finite sg m e)"

definition round_with_shift :: "bool \<Rightarrow> nat \<Rightarrow> nat \<Rightarrow> int \<Rightarrow> int \<Rightarrow> pyfloat" where
  "round_with_shift sg p q k s = pack_double sg (round_scaled p q s) (k - s)"

definition round_to_double :: "bool \<Rightarrow> nat \<Rightarrow> nat \<Rightarrow> int \<Rightarrow> pyfloat" where
  "round_to_double sg p q k =
     (if p = 0 then Finite sg 0 0
      else round_with_shift sg p q k (min (binary_shift p q) (k + 1074)))"

text \<open>The float \<^verbatim>\<open>0.0\<close>, and the float of a non-negative integer literal.\<close>

definition float_zero :: pyfloat where
  "float_zero = Finite False 0 0"

definition float_of_nat :: "nat \<Rightarrow> pyfloat" where
  "float_of_nat n = round_to_double False n 1 0"

text \<open>
  \<open>float_div_nat x n\<close> is Python's \<^verbatim>\<open>x / n\<close> for a float \<open>x\<close> and a positive integer
  literal \<open>n\<close> that a double holds exactly (the program divides by \<open>60\<close> and by \<open>1000\<close>
  only): the correctly rounded quotient. \<open>nat_truediv a b\<close> is \<^verbatim>\<open>a / b\<close> for two
  non-negative integers, \<open>b > 0\<close>: Python rounds the exact quotient once.
\<close>

fun float_div_nat :: "pyfloat \<Rightarrow> nat \<Rightarrow> pyfloat" where
  "float_div_nat (Finite sg m e) n = round_to_double sg m n e"
| "float_div_nat (Infinity sg) n = Infinity sg"
| "float_div_nat NaN n = NaN"

definition nat_truediv :: "nat \<Rightarrow> nat \<Rightarrow> pyfloat" where
  "nat_truediv a b = round_to_double False a b 0"

subsection \<open>Floats as text\<close>

text \<open>
  \<^verbatim>\<open>repr\<close> of a float, which an f-string field without a format uses, prints the
  shortest digit string that reads back as the same double (the nearest one when there
  are several), in exponent notation when the decimal point would stand more than 16
  places right or more than 3 places left of the first digit.

  A finite double \<open>m * 2^e\<close> is the fraction \<open>float_num m e / float_den m e\<close>.
  \<open>dec_exp a b\<close> is the position \<open>d\<close> of the decimal point of \<open>a / b > 0\<close>:
  \<open>10^(d-1) \<le> a / b < 10^d\<close>.
\<close>

definition float_num :: "nat \<Rightarrow> int \<Rightarrow> nat" where
  "float_num m e = (if 0 \<le> e then m * 2 ^ nat e else m)"

definition float_den :: "nat \<Rightarrow> int \<Rightarrow> nat" where
  "float_den m e = (if 0 \<le> e then 1 else 2 ^ nat (- e))"

function leading_shift :: "nat \<Rightarrow> nat \<Rightarrow> nat" where
  "leading_shift a b = (if b \<le> a \<or> a = 0 then 0 else Suc (leading_shift (10 * a) b))"
  by pat_completeness auto
termination
  by (relation "measure (\<lambda>(a, b). b - a)") auto

declare leading_shift.simps [simp del]

definition dec_exp :: "nat \<Rightarrow> nat \<Rightarrow> int" where
  "dec_exp a b = (if b \<le> a then int (length (str_nat (a div b))) else 1 - int (leading_shift a b))"

text \<open>
  \<open>reads_back m e c x\<close>: the decimal \<open>c * 10^x\<close> is read as the double \<open>m * 2^e\<close>.
  \<open>candidate m e a b d n\<close>, for the value \<open>a / b\<close> of that double and its decimal point
  \<open>d\<close>: an \<open>n\<close>-digit decimal \<open>c * 10^(d-n)\<close> that reads back as the double, if there is
  one. Only the two \<open>n\<close>-digit decimals \<open>lo\<close> and \<open>lo + 1\<close> around the value can; of two
  that do, the nearer is taken.
\<close>

definition reads_back :: "nat \<Rightarrow> int \<Rightarrow> nat \<Rightarrow> int \<Rightarrow> bool" where
  "reads_back m e c x =
     ((if 0 \<le> x then round_to_double False (c * 10 ^ nat x) 1 0
       else round_to_double False c (10 ^ nat (- x)) 0) = Finite False m e)"

definition choose_digits :: "nat \<Rightarrow> int \<Rightarrow> nat \<Rightarrow> nat \<Rightarrow> bool \<Rightarrow> bool \<Rightarrow> (nat \<times> int) option" where
  "choose_digits lo x r b oklo okhi =
     (if oklo \<and> okhi then Some (nearest_even lo r b, x)
      else if oklo then Some (lo, x)
      else if okhi then Some (lo + 1, x)
      else None)"

definition candidate_frac :: "nat \<Rightarrow> int \<Rightarrow> int \<Rightarrow> nat \<Rightarrow> nat \<Rightarrow> (nat \<times> int) option" where
  "candidate_frac m e x a2 b2 =
     choose_digits (a2 div b2) x (a2 mod b2) b2
       (reads_back m e (a2 div b2) x) (reads_back m e (a2 div b2 + 1) x)"

definition candidate_exp :: "nat \<Rightarrow> int \<Rightarrow> nat \<Rightarrow> nat \<Rightarrow> int \<Rightarrow> (nat \<times> int) option" where
  "candidate_exp m e a b x =
     (if x \<le> 0 then candidate_frac m e x (a * 10 ^ nat (- x)) b
      else candidate_frac m e x a (b * 10 ^ nat x))"

definition candidate :: "nat \<Rightarrow> int \<Rightarrow> nat \<Rightarrow> nat \<Rightarrow> int \<Rightarrow> nat \<Rightarrow> (nat \<times> int) option" where
  "candidate m e a b d n = candidate_exp m e a b (d - int n)"

fun first_candidate :: "nat \<Rightarrow> int \<Rightarrow> nat \<Rightarrow> nat \<Rightarrow> int \<Rightarrow> nat list \<Rightarrow> (nat \<times> int) option" where
  "first_candidate m e a b d [] = None"
| "first_candidate m e a b d (n # ns) =
     (case candidate m e a b d n of
        Some r \<Rightarrow> Some r
      | None \<Rightarrow> first_candidate m e a b d ns)"

definition strip_zeros :: "string \<Rightarrow> string" where
  "strip_zeros ds = rev (dropWhile (\<lambda>c. c = CHR ''0'') (rev ds))"

text \<open>
  The digits and the position of the decimal point: the value is \<open>0.d1 d2 ... * 10^decpt\<close>.
  Seventeen digits always identify a double, so the search over 1 to 17 digits finds
  one; the branch for \<open>None\<close> is never taken.
\<close>

definition digits_of :: "(nat \<times> int) option \<Rightarrow> string \<times> int" where
  "digits_of r =
     (case r of
        None \<Rightarrow> (''0'', 1)
      | Some (c, x) \<Rightarrow> (strip_zeros (str_nat c), int (length (str_nat c)) + x))"

definition shortest_digits :: "nat \<Rightarrow> int \<Rightarrow> string \<times> int" where
  "shortest_digits m e =
     digits_of (first_candidate m e (float_num m e) (float_den m e)
       (dec_exp (float_num m e) (float_den m e))
       [1, 2, 3, 4, 5, 6, 7, 8, 9, 10, 11, 12, 13, 14, 15, 16, 17])"

definition exp_digits :: "int \<Rightarrow> string" where
  "exp_digits x =
     (if x < 0 then ''-'' else ''+'') @
     (if \<bar>x\<bar> < 10 then ''0'' else []) @ str_nat (nat \<bar>x\<bar>)"

definition uses_exponent :: "int \<Rightarrow> bool" where
  "uses_exponent decpt = (decpt \<le> - 4 \<or> 16 < decpt)"

definition format_short :: "string \<times> int \<Rightarrow> string" where
  "format_short dd =
     (case dd of (ds, decpt) \<Rightarrow>
       if uses_exponent decpt then
         take 1 ds @ (if 1 < length ds then ''.'' @ drop 1 ds else []) @ ''e'' @ exp_digits (decpt - 1)
       else if decpt \<le> 0 then ''0.'' @ replicate (nat (- decpt)) (CHR ''0'') @ ds
       else if int (length ds) \<le> decpt then
         ds @ replicate (nat decpt - length ds) (CHR ''0'') @ ''.0''
       else take (nat decpt) ds @ ''.'' @ drop (nat decpt) ds)"

fun float_repr :: "pyfloat \<Rightarrow> string" where
  "float_repr NaN = ''nan''"
| "float_repr (Infinity sg) = (if sg then ''-inf'' else ''inf'')"
| "float_repr (Finite sg m e) =
     (if m = 0 then (if sg then ''-0.0'' else ''0.0'')
      else (if sg then ''-'' else []) @ format_short (shortest_digits m e))"

text \<open>
  The format \<^verbatim>\<open>.2f\<close>: the value rounded to two decimals (ties to even on the exact
  value), never in exponent notation.
\<close>

definition two_decimals :: "nat \<Rightarrow> string" where
  "two_decimals c =
     str_nat (c div 100) @ ''.'' @ [digit_char (c mod 100 div 10), digit_char (c mod 10)]"

fun format_2f :: "pyfloat \<Rightarrow> string" where
  "format_2f NaN = ''nan''"
| "format_2f (Infinity sg) = (if sg then ''-inf'' else ''inf'')"
| "format_2f (Finite sg m e) =
     (if sg then ''-'' else []) @
     two_decimals (round_half_even (float_num m e * 100) (float_den m e))"

section \<open>The program\<close>

subsection \<open>Module state\<close>

text \<open>
  The three pump axes are the keys of the dictionary \<^verbatim>\<open>pumps\<close>. No statement of the
  program adds or removes a key, so the dictionary is a total function on \<open>axis\<close>, and
  \<^verbatim>\<open>pumps.items()\<close> lists it in the order of the literal that creates it
  (\<open>pump_items\<close>).
\<close>

datatype axis = X | Y | Z

fun axis_name :: "axis \<Rightarrow> string" where
  "axis_name X = ''X''"
| "axis_name Y = ''Y''"
| "axis_name Z = ''Z''"

record pump =
  flow :: pyfloat
  pos :: pyfloat
  syringe :: string
  enabled :: bool

definition pump_items :: "(axis \<Rightarrow> pump) \<Rightarrow> (axis \<times> pump) list" where
  "pump_items ps = [(X, ps X), (Y, ps Y), (Z, ps Z)]"

text \<open>The table \<^verbatim>\<open>syringes\<close>, and the two dictionaries computed from it.\<close>

record syringe_info =
  name :: string
  steps :: int

definition syringes :: "(string \<times> syringe_info) list" where
  "syringes =
     [(''0'', \<lparr>name = ''none'', steps = 0\<rparr>),
      (''1'', \<lparr>name = ''10 mL HenkeJect'', steps = 20927\<rparr>),
      (''2'', \<lparr>name = ''5 mL HenkeJect'', steps = 10800\<rparr>),
      (''3'', \<lparr>name = ''2 mL HenkeJect'', steps = 20003\<rparr>)]"

definition syringe_name_to_id :: "string \<rightharpoonup> string" where
  "syringe_name_to_id = foldl (\<lambda>d (k, v). d(name v \<mapsto> k)) Map.empty syringes"

definition syringe_id_to_name :: "string \<rightharpoonup> string" where
  "syringe_id_to_name = foldl (\<lambda>d (k, v). d(k \<mapsto> name v)) Map.empty syringes"

definition SERIAL_PORT :: string where
  "SERIAL_PORT = ''COM8''"

definition BAUDRATE :: nat where
  "BAUDRATE = 115200"

definition stepsize :: nat where
  "stepsize = 1"

text \<open>
  What the program raises: a failure of the serial port (opening it, resetting its input
  buffer, writing a line) and a missing dictionary key. A \<^verbatim>\<open>ValueError\<close> of
  \<^verbatim>\<open>float\<close> is caught where it is raised and is the value \<open>None\<close> of the parser.
\<close>

datatype exn = OpenError | ResetError | WriteError | KeyError

text \<open>
  What the program does to the outside, in order: sleeping, the calls on the serial port
  with their outcome, and the lines it prints. The printed lines and the text of the
  status label are constructors, one for each message of the source:
  \<open>PumpTurned a on\<close> is \<^verbatim>\<open>[i] {axis} pump turned {state}\<close>,
  \<open>MockConnected\<close> the line \<^verbatim>\<open>Mock connected to virtual printer\<close>,
  \<open>ConnectedTo port\<close> the line \<^verbatim>\<open>Connected to printer on {SERIAL_PORT}\<close>,
  \<open>CouldNotConnect e\<close> the line \<^verbatim>\<open>[X] Could not connect: {e}\<close>,
  \<open>DisconnectedFrom\<close> the line \<^verbatim>\<open>[i] Disconnected from printer.\<close>,
  \<open>Sent c\<close> the echo \<^verbatim>\<open>>> {command}\<close> of \<^verbatim>\<open>send_gcode\<close>, and
  \<open>CancelledAll\<close> the line \<^verbatim>\<open>[!] Cancelled all commands and sent reset.\<close>
\<close>

datatype message =
    PumpTurned axis bool
  | MockConnected
  | ConnectedTo string
  | CouldNotConnect exn
  | DisconnectedFrom
  | Sent string
  | CancelledAll

datatype status =
    StatusDisconnected
  | StatusMockConnected
  | StatusConnected string
  | StatusConnectionFailed
  | StatusCancelled

datatype io =
    Sleep nat
  | SerialOpen string nat bool
  | ResetInputBuffer bool
  | SerialWrite string bool
  | SerialClose
  | Print message

datatype serial = Serial string nat

text \<open>
  The globals of the module and the texts of the widgets. \<open>lock_held\<close> is the state of
  \<^verbatim>\<open>lock\<close>; \<open>trace\<close> records the effects on the outside; \<open>pump_writes\<close> records every
  assignment to a field of \<^verbatim>\<open>pumps\<close>: the axis, the field, and whether the lock was held
  at that moment. The constant \<^verbatim>\<open>MOCK_MODE\<close>, which the source sets to \<^verbatim>\<open>True\<close>
  and tells to set to \<^verbatim>\<open>False\<close> for the real printer, is the parameter \<open>mock\<close> of
  the functions that read it.
\<close>

record state =
  ser :: "serial option"
  connected :: bool
  cancelled :: bool
  pumps :: "axis \<Rightarrow> pump"
  lock_held :: bool
  status_label :: status
  toggle_buttons :: "axis \<Rightarrow> string"
  current_labels :: "axis \<Rightarrow> string"
  trace :: "io list"
  pump_writes :: "(axis \<times> string \<times> bool) list"

definition init_state :: state where
  "init_state =
     \<lparr>ser = None, connected = False, cancelled = False,
      pumps = (\<lambda>a. \<lparr>flow = float_zero, pos = float_zero, syringe = ''0'', enabled = True\<rparr>),
      lock_held = False,
      status_label = StatusDisconnected,
      toggle_buttons = (\<lambda>a. axis_name a @ '' ON''),
      current_labels = (\<lambda>a. ''0.00''),
      trace = [],
      pump_writes = []\<rparr>"

text \<open>
  The outside, for one operation: whether opening the port and resetting its input
  buffer succeed, and whether writing a given line does.
\<close>

record env =
  open_ok :: bool
  reset_ok :: bool
  write_ok :: "string \<Rightarrow> bool"

subsection \<open>Building blocks\<close>

text \<open>
  An operation returns the exception it raises, if any, and the state it leaves:
  what it did before raising stays done. \<open>and_then\<close> is sequencing, \<open>with_lock\<close> the
  statement \<^verbatim>\<open>with lock:\<close>, which releases the lock on every way out.
\<close>

type_synonym op = "state \<Rightarrow> exn option \<times> state"

definition emit :: "io \<Rightarrow> state \<Rightarrow> state" where
  "emit x s = s\<lparr>trace := trace s @ [x]\<rparr>"

definition set_pump :: "axis \<Rightarrow> string \<Rightarrow> (pump \<Rightarrow> pump) \<Rightarrow> state \<Rightarrow> state" where
  "set_pump a field f s =
     s\<lparr>pumps := (pumps s)(a := f (pumps s a)),
       pump_writes := pump_writes s @ [(a, field, lock_held s)]\<rparr>"

definition and_then :: "op \<Rightarrow> op \<Rightarrow> op" where
  "and_then f g s = (case f s of (None, s') \<Rightarrow> g s' | (Some e, s') \<Rightarrow> (Some e, s'))"

definition done_op :: "(state \<Rightarrow> state) \<Rightarrow> op" where
  "done_op f s = (None, f s)"

definition with_lock :: "op \<Rightarrow> op" where
  "with_lock body s =
     (case body (s\<lparr>lock_held := True\<rparr>) of (r, s') \<Rightarrow> (r, s'\<lparr>lock_held := False\<rparr>))"

subsection \<open>\<^verbatim>\<open>toggle_pump\<close>\<close>

definition toggle_pump :: "axis \<Rightarrow> state \<Rightarrow> state" where
  "toggle_pump a s =
     emit (Print (PumpTurned a (\<not> enabled (pumps s a))))
       ((set_pump a ''enabled'' (\<lambda>p. p\<lparr>enabled := \<not> enabled p\<rparr>) s)
          \<lparr>toggle_buttons := (toggle_buttons s)
             (a := axis_name a @ '' '' @ (if \<not> enabled (pumps s a) then ''ON'' else ''OFF''))\<rparr>)"

subsection \<open>Printer communication\<close>

text \<open>
  \<^verbatim>\<open>send_gcode\<close>: nothing when not connected; otherwise the line is written to the port
  (outside mock mode, with a port open) and echoed. A failed write raises before the
  echo.
\<close>

definition encode_line :: "string \<Rightarrow> string" where
  "encode_line command = command @ [CHR 0x0A]"

definition send_gcode :: "bool \<Rightarrow> env \<Rightarrow> string \<Rightarrow> op" where
  "send_gcode mock ev command s =
     (if connected s then
        (if \<not> mock \<and> ser s \<noteq> None then
           (if write_ok ev (encode_line command)
            then (None, emit (Print (Sent command)) (emit (SerialWrite (encode_line command) True) s))
            else (Some WriteError, emit (SerialWrite (encode_line command) False) s))
         else (None, emit (Print (Sent command)) s))
      else (None, s))"

text \<open>The body of the \<^verbatim>\<open>try\<close> in \<^verbatim>\<open>connect_serial\<close>, and the function.\<close>

definition open_port :: "env \<Rightarrow> op" where
  "open_port ev s =
     (if open_ok ev
      then (None, (emit (SerialOpen SERIAL_PORT BAUDRATE True) s)\<lparr>ser := Some (Serial SERIAL_PORT BAUDRATE)\<rparr>)
      else (Some OpenError, emit (SerialOpen SERIAL_PORT BAUDRATE False) s))"

definition reset_input_buffer :: "env \<Rightarrow> op" where
  "reset_input_buffer ev s =
     (if reset_ok ev then (None, emit (ResetInputBuffer True) s)
      else (Some ResetError, emit (ResetInputBuffer False) s))"

definition declare_connected :: "state \<Rightarrow> state" where
  "declare_connected s =
     emit (Print (ConnectedTo SERIAL_PORT))
       (s\<lparr>connected := True, status_label := StatusConnected SERIAL_PORT\<rparr>)"

definition connect_try :: "env \<Rightarrow> op" where
  "connect_try ev =
     and_then (open_port ev)
    (and_then (done_op (emit (Sleep 2)))
    (and_then (reset_input_buffer ev)
    (and_then (done_op declare_connected)
    (and_then (send_gcode False ev ''M92 X-0 Y-0 Z0'')
    (and_then (send_gcode False ev ''M302 S0'')
    (and_then (send_gcode False ev ''M211 S0'')
              (send_gcode False ev ''G91'')))))))"

definition connect_failed :: "exn \<Rightarrow> state \<Rightarrow> state" where
  "connect_failed e s =
     emit (Print (CouldNotConnect e))
       (s\<lparr>connected := False, status_label := StatusConnectionFailed\<rparr>)"

definition connect_serial :: "bool \<Rightarrow> env \<Rightarrow> state \<Rightarrow> state" where
  "connect_serial mock ev s =
     (if mock then
        emit (Print MockConnected)
          (s\<lparr>cancelled := False, connected := True, status_label := StatusMockConnected\<rparr>)
      else
        (case connect_try ev (s\<lparr>cancelled := False\<rparr>) of
           (None, s') \<Rightarrow> s'
         | (Some e, s') \<Rightarrow> connect_failed e s'))"

definition disconnect_serial :: "bool \<Rightarrow> state \<Rightarrow> state" where
  "disconnect_serial mock s =
     emit (Print DisconnectedFrom)
       ((if \<not> mock \<and> ser s \<noteq> None then (emit SerialClose s)\<lparr>ser := None\<rparr> else s)
          \<lparr>connected := False, status_label := StatusDisconnected\<rparr>)"

subsection \<open>The scheduler thread\<close>

text \<open>
  One pass of the loop over \<^verbatim>\<open>pumps.items()\<close> (\<open>add_field\<close>), the command of a tick
  (\<open>motion_cmd\<close>), and one pass of the \<^verbatim>\<open>while True\<close> loop (\<open>scheduler_tick\<close>).
\<close>

definition printer_flow :: "pyfloat \<Rightarrow> pyfloat" where
  "printer_flow f = float_div_nat (float_div_nat f 60) 1000"

definition add_field :: "string \<Rightarrow> axis \<times> pump \<Rightarrow> string" where
  "add_field cmd item =
     (if \<not> enabled (snd item) then cmd
      else cmd @ '' '' @ axis_name (fst item) @ float_repr (printer_flow (flow (snd item))))"

definition motion_cmd :: "(axis \<Rightarrow> pump) \<Rightarrow> pyfloat \<Rightarrow> string" where
  "motion_cmd ps printer_stepsize =
     foldl add_field ''G1'' (pump_items ps) @ '' F'' @ float_repr printer_stepsize"

definition tick_body :: "bool \<Rightarrow> env \<Rightarrow> pyfloat \<Rightarrow> op" where
  "tick_body mock ev printer_stepsize s =
     (if connected s \<and> \<not> cancelled s
      then send_gcode mock ev (motion_cmd (pumps s) printer_stepsize) s
      else (None, s))"

definition scheduler_tick :: "bool \<Rightarrow> env \<Rightarrow> pyfloat \<Rightarrow> op" where
  "scheduler_tick mock ev printer_stepsize s =
     with_lock (tick_body mock ev printer_stepsize) (emit (Sleep stepsize) s)"

text \<open>
  The loop never ends by itself. \<open>scheduler_loop\<close> runs one pass for each element of a
  list, which says what the outside does during that pass: the result \<open>None\<close> means that
  all these passes were made and the loop goes on, \<open>Some e\<close> that a pass raised \<open>e\<close>,
  which nothing in \<^verbatim>\<open>scheduler\<close> catches: the thread has ended.
\<close>

fun scheduler_loop :: "bool \<Rightarrow> pyfloat \<Rightarrow> env list \<Rightarrow> op" where
  "scheduler_loop mock printer_stepsize [] s = (None, s)"
| "scheduler_loop mock printer_stepsize (ev # evs) s =
     (case scheduler_tick mock ev printer_stepsize s of
        (None, s') \<Rightarrow> scheduler_loop mock printer_stepsize evs s'
      | (Some e, s') \<Rightarrow> (Some e, s'))"

definition scheduler :: "bool \<Rightarrow> env list \<Rightarrow> op" where
  "scheduler mock evs = scheduler_loop mock (nat_truediv stepsize 60) evs"

subsection \<open>\<^verbatim>\<open>cancel_and_reset\<close>\<close>

definition zero_flow :: "state \<Rightarrow> axis \<Rightarrow> state" where
  "zero_flow s a =
     (set_pump a ''flow'' (\<lambda>p. p\<lparr>flow := float_zero\<rparr>) s)
       \<lparr>current_labels := (current_labels s)(a := ''0.00'')\<rparr>"

definition cancel_and_reset :: "bool \<Rightarrow> env \<Rightarrow> op" where
  "cancel_and_reset mock ev =
     with_lock
       (and_then (done_op (\<lambda>s. foldl zero_flow (s\<lparr>cancelled := True\<rparr>) [X, Y, Z]))
       (and_then (send_gcode mock ev ''M112'')
       (and_then (send_gcode mock ev ''M999'')
                 (done_op (\<lambda>s. emit (Print CancelledAll) (s\<lparr>status_label := StatusCancelled\<rparr>))))))"

subsection \<open>\<^verbatim>\<open>apply_rates\<close>\<close>

text \<open>
  \<open>py_float\<close> is Python's \<^verbatim>\<open>float\<close> on a string, \<open>None\<close> where it raises
  \<^verbatim>\<open>ValueError\<close>; \<open>flow_entries\<close> and \<open>syringe_vars\<close> are what the entry and the menu of
  each axis hold. \<open>store_input\<close> is one pass of the first loop and \<open>store_inputs\<close> the
  loop, \<open>m92_parts\<close> the second loop, \<open>join\<close> the method \<^verbatim>\<open>str.join\<close>.
\<close>

definition parse_flow :: "(string \<Rightarrow> pyfloat option) \<Rightarrow> string \<Rightarrow> pyfloat" where
  "parse_flow py_float text = (case py_float text of Some v \<Rightarrow> v | None \<Rightarrow> float_zero)"

definition selected_id :: "string \<Rightarrow> string" where
  "selected_id selected_name =
     (case syringe_name_to_id selected_name of Some i \<Rightarrow> i | None \<Rightarrow> ''0'')"

definition store_input ::
  "(string \<Rightarrow> pyfloat option) \<Rightarrow> (axis \<Rightarrow> string) \<Rightarrow> (axis \<Rightarrow> string) \<Rightarrow> state \<Rightarrow> axis \<Rightarrow> state" where
  "store_input py_float flow_entries syringe_vars s a =
     (set_pump a ''syringe'' (\<lambda>p. p\<lparr>syringe := selected_id (syringe_vars a)\<rparr>)
        (set_pump a ''flow'' (\<lambda>p. p\<lparr>flow := parse_flow py_float (flow_entries a)\<rparr>) s))
       \<lparr>current_labels := (current_labels s)(a := format_2f (parse_flow py_float (flow_entries a)))\<rparr>"

definition store_inputs ::
  "(string \<Rightarrow> pyfloat option) \<Rightarrow> (axis \<Rightarrow> string) \<Rightarrow> (axis \<Rightarrow> string) \<Rightarrow> state \<Rightarrow> state" where
  "store_inputs py_float flow_entries syringe_vars s =
     foldl (store_input py_float flow_entries syringe_vars) s [X, Y, Z]"

definition m92_part :: "axis \<Rightarrow> int \<Rightarrow> string" where
  "m92_part a steps_per_ml =
     axis_name a @ str_int (if a \<in> {X, Y} then - \<bar>steps_per_ml\<bar> else steps_per_ml)"

fun m92_parts :: "(axis \<Rightarrow> pump) \<Rightarrow> axis list \<Rightarrow> exn + string list" where
  "m92_parts ps [] = Inr []"
| "m92_parts ps (a # as) =
     (case map_of syringes (syringe (ps a)) of
        None \<Rightarrow> Inl KeyError
      | Some info \<Rightarrow>
          (case m92_parts ps as of
             Inl e \<Rightarrow> Inl e
           | Inr parts \<Rightarrow> Inr (m92_part a (steps info) # parts)))"

fun join :: "string \<Rightarrow> string list \<Rightarrow> string" where
  "join sep [] = []"
| "join sep [x] = x"
| "join sep (x # y # ys) = x @ sep @ join sep (y # ys)"

definition send_m92 :: "bool \<Rightarrow> env \<Rightarrow> op" where
  "send_m92 mock ev s =
     (case m92_parts (pumps s) [X, Y, Z] of
        Inl e \<Rightarrow> (Some e, s)
      | Inr parts \<Rightarrow> send_gcode mock ev (''M92 '' @ join '' '' parts) s)"

definition apply_rates ::
  "bool \<Rightarrow> env \<Rightarrow> (string \<Rightarrow> pyfloat option) \<Rightarrow> (axis \<Rightarrow> string) \<Rightarrow> (axis \<Rightarrow> string) \<Rightarrow> op" where
  "apply_rates mock ev py_float flow_entries syringe_vars =
     with_lock
       (and_then (done_op (store_inputs py_float flow_entries syringe_vars))
       (and_then (send_m92 mock ev)
       (and_then (send_gcode mock ev ''M302 S0'')
       (and_then (send_gcode mock ev ''M211 S0'')
                 (send_gcode mock ev ''G91'')))))"

subsection \<open>The program as a whole\<close>

text \<open>
  The buttons and the scheduler thread act on the same state. An event is one callback
  of a button or one pass of the scheduler loop, together with what the outside does
  during it. The first component of the running state is the exception that ended the
  scheduler thread, \<open>None\<close> while the thread runs. An exception raised in a callback is
  reported by the window toolkit and the program goes on.
\<close>

datatype event =
    Connect
  | Disconnect
  | TogglePump axis
  | ApplyRates "axis \<Rightarrow> string" "axis \<Rightarrow> string"
  | CancelAndReset
  | Tick

fun step ::
  "bool \<Rightarrow> (string \<Rightarrow> pyfloat option) \<Rightarrow> exn option \<times> state \<Rightarrow> env \<times> event \<Rightarrow> exn option \<times> state" where
  "step mock py_float (d, s) (ev, Connect) = (d, connect_serial mock ev s)"
| "step mock py_float (d, s) (ev, Disconnect) = (d, disconnect_serial mock s)"
| "step mock py_float (d, s) (ev, TogglePump a) = (d, toggle_pump a s)"
| "step mock py_float (d, s) (ev, ApplyRates flow_entries syringe_vars) =
     (d, snd (apply_rates mock ev py_float flow_entries syringe_vars s))"
| "step mock py_float (d, s) (ev, CancelAndReset) = (d, snd (cancel_and_reset mock ev s))"
| "step mock py_float (d, s) (ev, Tick) =
     (case d of
        Some e \<Rightarrow> (d, s)
      | None \<Rightarrow> scheduler_tick mock ev (nat_truediv stepsize 60) s)"

definition run ::
  "bool \<Rightarrow> (string \<Rightarrow> pyfloat option) \<Rightarrow> (env \<times> event) list \<Rightarrow> exn option \<times> state \<Rightarrow> exn option \<times> state" where
  "run mock py_float es ds = foldl (step mock py_float) ds es"

text \<open>
  What reached, or was to reach, the printer: the commands \<^verbatim>\<open>send_gcode\<close> echoed
  (\<open>sent\<close>), and the lines it tried to write to the port (\<open>written\<close>). A motion command
  is a line that starts with \<^verbatim>\<open>G1\<close> and a space.
\<close>

fun sent :: "io list \<Rightarrow> string list" where
  "sent [] = []"
| "sent (Print (Sent c) # xs) = c # sent xs"
| "sent (x # xs) = sent xs"

fun written :: "io list \<Rightarrow> string list" where
  "written [] = []"
| "written (SerialWrite l ok # xs) = l # written xs"
| "written (x # xs) = written xs"

definition is_motion :: "string \<Rightarrow> bool" where
  "is_motion c = (take 3 c = ''G1 '')"

text \<open>The fields of a command: the pieces between single spaces.\<close>

fun cmd_fields :: "string \<Rightarrow> string list" where
  "cmd_fields [] = [[]]"
| "cmd_fields (c # cs) =
     (if c = CHR '' '' then [] # cmd_fields cs
      else (case cmd_fields cs of [] \<Rightarrow> [[c]] | w # ws \<Rightarrow> (c # w) # ws))"

subsection \<open>Example surroundings\<close>

text \<open>
  Three behaviours of the outside used in the examples below: a port on which every call
  succeeds, one that opens but on which every write fails, and one that does not open.
\<close>

definition all_ok :: env where
  "all_ok = \<lparr>open_ok = True, reset_ok = True, write_ok = (\<lambda>l. True)\<rparr>"

definition write_fails :: env where
  "write_fails = \<lparr>open_ok = True, reset_ok = True, write_ok = (\<lambda>l. False)\<rparr>"

definition open_fails :: env where
  "open_fails = \<lparr>open_ok = False, reset_ok = True, write_ok = (\<lambda>l. True)\<rparr>"

text \<open>The state after pressing Connect at start, in mock mode and on a port that works.\<close>

definition mock_connected :: state where
  "mock_connected = connect_serial True all_ok init_state"

definition real_connected :: state where
  "real_connected = connect_serial False all_ok init_state"

text \<open>
  A stand-in for \<^verbatim>\<open>float\<close> on the entries the examples use: it reads the text
  \<^verbatim>\<open>6000\<close> and rejects every other text.
\<close>

definition sample_float :: "string \<Rightarrow> pyfloat option" where
  "sample_float t = (if t = ''6000'' then Some (float_of_nat 6000) else None)"

subsection \<open>Vocabulary of the properties\<close>

text \<open>
  The motion commands that reached, or were to reach, the printer (\<open>motion_sent\<close>);
  a state in which the latch \<^verbatim>\<open>cancelled\<close> is set and these are \<open>m\<close> (\<open>latched\<close>);
  and what a connection to a port that works does to the outside, in order
  (\<open>real_connect_trace\<close>).
\<close>

definition motion_sent :: "state \<Rightarrow> string list" where
  "motion_sent s = filter is_motion (sent (trace s) @ written (trace s))"

definition latched :: "string list \<Rightarrow> state \<Rightarrow> bool" where
  "latched m s = (cancelled s \<and> motion_sent s = m)"

definition real_connect_trace :: "io list" where
  "real_connect_trace =
     [SerialOpen SERIAL_PORT BAUDRATE True, Sleep 2, ResetInputBuffer True,
      Print (ConnectedTo SERIAL_PORT),
      SerialWrite (encode_line ''M92 X-0 Y-0 Z0'') True, Print (Sent ''M92 X-0 Y-0 Z0''),
      SerialWrite (encode_line ''M302 S0'') True, Print (Sent ''M302 S0''),
      SerialWrite (encode_line ''M211 S0'') True, Print (Sent ''M211 S0''),
      SerialWrite (encode_line ''G91'') True, Print (Sent ''G91'')]"

text \<open>
  The decimal digits, and the floats that \<^verbatim>\<open>repr\<close> prints in exponent notation: the
  finite non-zero ones whose decimal point stands at most at \<open>-4\<close> or beyond \<open>16\<close>.
\<close>

definition digit_chars :: "char set" where
  "digit_chars = set ''0123456789''"

definition exponent_form :: "pyfloat \<Rightarrow> bool" where
  "exponent_form x =
     (case x of
        Finite sg m e \<Rightarrow> m \<noteq> 0 \<and> uses_exponent (snd (shortest_digits m e))
      | Infinity sg \<Rightarrow> False
      | NaN \<Rightarrow> False)"

text \<open>
  The rate field of an axis in a motion command: the letter of the axis, then the
  converted flow. The enabled axes, in the order of \<^verbatim>\<open>pumps\<close>.
\<close>

definition rate_field :: "(axis \<Rightarrow> pump) \<Rightarrow> axis \<Rightarrow> string" where
  "rate_field ps a = axis_name a @ float_repr (printer_flow (flow (ps a)))"

definition enabled_axes :: "(axis \<Rightarrow> pump) \<Rightarrow> axis list" where
  "enabled_axes ps = filter (\<lambda>a. enabled (ps a)) [X, Y, Z]"

text \<open>
  The steps of the syringe that a menu selection stands for, and the calibration command
  for the selections of the three axes.
\<close>

definition selected_steps :: "string \<Rightarrow> int" where
  "selected_steps n =
     (case map_of syringes (selected_id n) of Some info \<Rightarrow> steps info | None \<Rightarrow> 0)"

definition calibration_cmd :: "(axis \<Rightarrow> string) \<Rightarrow> string" where
  "calibration_cmd syringe_vars =
     ''M92 X'' @ str_int (- \<bar>selected_steps (syringe_vars X)\<bar>) @
     '' Y'' @ str_int (- \<bar>selected_steps (syringe_vars Y)\<bar>) @
     '' Z'' @ str_int (selected_steps (syringe_vars Z))"

section \<open>Properties\<close>

lemma sent_append [simp]: "sent (xs @ ys) = sent xs @ sent ys"
  by (induction xs rule: sent.induct) simp_all

lemma written_append [simp]: "written (xs @ ys) = written xs @ written ys"
  by (induction xs rule: written.induct) simp_all

lemmas op_defs = and_then_def done_op_def with_lock_def emit_def set_pump_def

subsection \<open>Cancelling while disconnected\<close>

text \<open>
  C10. When \<^verbatim>\<open>cancel_and_reset\<close> is called while \<^verbatim>\<open>connected\<close> is false, it returns
  normally, sets \<^verbatim>\<open>cancelled\<close>, sets the flow of every axis to \<^verbatim>\<open>0.0\<close>, and
  transmits nothing: neither \<^verbatim>\<open>M112\<close> nor \<^verbatim>\<open>M999\<close> is written or echoed, since
  \<^verbatim>\<open>send_gcode\<close> does nothing when not connected. The only effect on the outside is
  the line the function prints at its end.
\<close>

theorem cancel_when_disconnected:
  "\<not> connected s \<Longrightarrow>
     fst (cancel_and_reset mock ev s) = None \<and>
     cancelled (snd (cancel_and_reset mock ev s)) \<and>
     (\<forall>a. flow (pumps (snd (cancel_and_reset mock ev s)) a) = float_zero) \<and>
     trace (snd (cancel_and_reset mock ev s)) = trace s @ [Print CancelledAll]"
proof -
  assume nc: "\<not> connected s"
  have flows: "flow (pumps (snd (cancel_and_reset mock ev s)) a) = float_zero" for a
    using nc by (cases a) (simp_all add: cancel_and_reset_def op_defs send_gcode_def zero_flow_def)
  show ?thesis
    using nc flows by (simp add: cancel_and_reset_def op_defs send_gcode_def zero_flow_def)
qed

theorem cancel_when_disconnected_witness:
  "\<not> connected init_state \<and>
   fst (cancel_and_reset False all_ok init_state) = None \<and>
   cancelled (snd (cancel_and_reset False all_ok init_state)) \<and>
   (\<forall>a. flow (pumps (snd (cancel_and_reset False all_ok init_state)) a) = float_zero) \<and>
   trace (snd (cancel_and_reset False all_ok init_state)) = [Print CancelledAll]"
  using cancel_when_disconnected [of init_state False all_ok] by (simp add: init_state_def)

subsection \<open>Connecting\<close>

lemmas connect_defs = connect_serial_def connect_try_def open_port_def reset_input_buffer_def
  declare_connected_def connect_failed_def send_gcode_def

lemma connect_mock:
  "connect_serial True ev s =
     emit (Print MockConnected)
       (s\<lparr>cancelled := False, connected := True, status_label := StatusMockConnected\<rparr>)"
  by (simp add: connect_serial_def)

lemma connect_real_iff:
  "connected (connect_serial False ev s) \<longleftrightarrow>
     open_ok ev \<and> reset_ok ev \<and> write_ok ev (encode_line ''M92 X-0 Y-0 Z0'') \<and>
     write_ok ev (encode_line ''M302 S0'') \<and> write_ok ev (encode_line ''M211 S0'') \<and>
     write_ok ev (encode_line ''G91'')"
  by (simp add: connect_defs op_defs)

lemma connect_real_trace:
  "connected (connect_serial False ev s) \<Longrightarrow>
     trace (connect_serial False ev s) = trace s @ real_connect_trace"
  by (auto simp add: connect_defs op_defs real_connect_trace_def split: if_splits)

lemma connect_open_fails:
  "\<not> open_ok ev \<Longrightarrow>
     \<not> connected (connect_serial False ev s) \<and>
     trace (connect_serial False ev s) =
       trace s @ [SerialOpen SERIAL_PORT BAUDRATE False, Print (CouldNotConnect OpenError)]"
  by (simp add: connect_defs op_defs)

lemma connect_clears: "\<not> cancelled (connect_serial mock ev s)"
  by (simp add: connect_defs op_defs)

lemma real_connected_facts:
  "connected real_connected \<and> \<not> cancelled real_connected \<and> ser real_connected \<noteq> None"
  by (simp add: real_connected_def all_ok_def init_state_def connect_defs op_defs)

text \<open>
  C6, as the claim states it, fails in mock mode: pressing Connect at start in mock mode
  leaves the program connected, and no command was sent or written.
\<close>

theorem connect_mock_sends_nothing:
  "connected (connect_serial True all_ok init_state) \<and>
   sent (trace (connect_serial True all_ok init_state)) = [] \<and>
   written (trace (connect_serial True all_ok init_state)) = []"
  by (simp add: connect_serial_def emit_def init_state_def)

text \<open>
  C6, amended. In mock mode \<^verbatim>\<open>connect_serial\<close> clears \<^verbatim>\<open>cancelled\<close>, sets
  \<^verbatim>\<open>connected\<close> and the status, prints one line, and sends nothing. On a real port
  it ends connected exactly when opening the port, resetting its input buffer and the
  four writes all succeed; then it has, in this order, opened the port, slept two
  seconds, reset the input buffer, announced the connection, and sent
  \<^verbatim>\<open>M92 X-0 Y-0 Z0\<close> and the three standing commands \<^verbatim>\<open>M302 S0\<close>, \<^verbatim>\<open>M211 S0\<close>,
  \<^verbatim>\<open>G91\<close>. When the port does not open, it ends not connected, with nothing sent.
\<close>

theorem connect_sends_init_on_real_port:
  "connect_serial True ev s =
     emit (Print MockConnected)
       (s\<lparr>cancelled := False, connected := True, status_label := StatusMockConnected\<rparr>) \<and>
   (connected (connect_serial False ev s) \<longleftrightarrow>
      open_ok ev \<and> reset_ok ev \<and> write_ok ev (encode_line ''M92 X-0 Y-0 Z0'') \<and>
      write_ok ev (encode_line ''M302 S0'') \<and> write_ok ev (encode_line ''M211 S0'') \<and>
      write_ok ev (encode_line ''G91'')) \<and>
   (connected (connect_serial False ev s) \<longrightarrow>
      trace (connect_serial False ev s) = trace s @ real_connect_trace) \<and>
   (\<not> open_ok ev \<longrightarrow>
      \<not> connected (connect_serial False ev s) \<and>
      trace (connect_serial False ev s) =
        trace s @ [SerialOpen SERIAL_PORT BAUDRATE False, Print (CouldNotConnect OpenError)])"
  using connect_mock [of ev s] connect_real_iff [of ev s] connect_real_trace [of ev s]
    connect_open_fails [of ev s]
  by blast

theorem connect_sends_init_on_real_port_witness:
  "connected (connect_serial False all_ok init_state) \<and>
   trace (connect_serial False all_ok init_state) = real_connect_trace \<and>
   sent (trace (connect_serial False all_ok init_state)) =
     [''M92 X-0 Y-0 Z0'', ''M302 S0'', ''M211 S0'', ''G91''] \<and>
   \<not> open_ok open_fails \<and>
   \<not> connected (connect_serial False open_fails init_state) \<and>
   trace (connect_serial False open_fails init_state) =
     [SerialOpen SERIAL_PORT BAUDRATE False, Print (CouldNotConnect OpenError)]"
  using connect_sends_init_on_real_port [of all_ok init_state]
    connect_sends_init_on_real_port [of open_fails init_state]
  by (simp add: all_ok_def open_fails_def init_state_def real_connect_trace_def)

subsection \<open>The scheduler and a failed write\<close>

lemma tick_mock_never_raises: "fst (scheduler_tick True ev ps s) = None"
  by (simp add: scheduler_tick_def tick_body_def send_gcode_def op_defs)

lemma loop_mock_never_raises: "fst (scheduler_loop True ps evs s) = None"
proof (induction evs arbitrary: s)
  case Nil
  show ?case by simp
next
  case (Cons ev evs)
  obtain s' where t: "scheduler_tick True ev ps s = (None, s')"
    using tick_mock_never_raises [of ev ps s] by (cases "scheduler_tick True ev ps s") simp
  show ?case using Cons.IH [of s'] by (simp add: t)
qed

lemma tick_raises:
  "fst (scheduler_tick mock ev ps s) \<noteq> None \<Longrightarrow>
     fst (scheduler_tick mock ev ps s) = Some WriteError \<and>
     \<not> mock \<and> connected s \<and> \<not> cancelled s \<and> ser s \<noteq> None \<and>
     \<not> write_ok ev (encode_line (motion_cmd (pumps s) ps)) \<and>
     trace (snd (scheduler_tick mock ev ps s)) =
       trace s @ [Sleep stepsize, SerialWrite (encode_line (motion_cmd (pumps s) ps)) False]"
  by (simp add: scheduler_tick_def tick_body_def send_gcode_def op_defs split: if_splits)

lemma tick_one_write:
  "length (written (trace (snd (scheduler_tick mock ev ps s)))) \<le> length (written (trace s)) + 1"
  by (simp add: scheduler_tick_def tick_body_def send_gcode_def op_defs)

lemma loop_goes_on:
  "fst (scheduler_tick mock ev ps s) = None \<Longrightarrow>
     scheduler_loop mock ps (ev # evs) s =
       scheduler_loop mock ps evs (snd (scheduler_tick mock ev ps s))"
  by (cases "scheduler_tick mock ev ps s") simp

lemma loop_ends:
  "fst (scheduler_tick mock ev ps s) \<noteq> None \<Longrightarrow>
     scheduler_loop mock ps (ev # evs) s = scheduler_tick mock ev ps s"
  by (cases "scheduler_tick mock ev ps s") auto

text \<open>
  C5, as the claim states it, fails on a real port. The program is connected to a port
  on which the write of the first pass fails and that of the second would succeed: the
  scheduler ends with the exception in the first pass, after one sleep and one failed
  write, and the second pass is never made. Nothing is printed about the failure.
\<close>

theorem scheduler_ends_on_failed_write:
  "fst (scheduler False [write_fails, all_ok] real_connected) = Some WriteError \<and>
   trace (snd (scheduler False [write_fails, all_ok] real_connected)) =
     trace real_connected @
     [Sleep stepsize,
      SerialWrite (encode_line (motion_cmd (pumps real_connected) (nat_truediv stepsize 60))) False]"
  using real_connected_facts
  by (simp add: scheduler_def scheduler_tick_def tick_body_def send_gcode_def op_defs write_fails_def)

lemma tick_fst:
  "fst (scheduler_tick mock ev ps s) =
     (if \<not> mock \<and> connected s \<and> \<not> cancelled s \<and> ser s \<noteq> None \<and>
         \<not> write_ok ev (encode_line (motion_cmd (pumps s) ps))
      then Some WriteError else None)"
  by (simp add: scheduler_tick_def tick_body_def send_gcode_def op_defs)

text \<open>
  C5, amended. A pass of the scheduler loop tries at most one write. A pass raises exactly
  when, on a real port, connected and not cancelled, the write of its motion command
  fails; in mock mode no pass raises, so the loop goes on for ever. A pass that does not
  raise is followed by the next pass. A pass that raises has slept and tried this one
  write, nothing was printed, and the loop ends with the exception, so that no later
  pass is made.
\<close>

theorem scheduler_write_failure:
  "fst (scheduler_loop True ps evs s) = None \<and>
   length (written (trace (snd (scheduler_tick mock ev ps s)))) \<le> length (written (trace s)) + 1 \<and>
   fst (scheduler_tick mock ev ps s) =
     (if \<not> mock \<and> connected s \<and> \<not> cancelled s \<and> ser s \<noteq> None \<and>
         \<not> write_ok ev (encode_line (motion_cmd (pumps s) ps))
      then Some WriteError else None) \<and>
   (fst (scheduler_tick mock ev ps s) = None \<longrightarrow>
      scheduler_loop mock ps (ev # evs) s =
        scheduler_loop mock ps evs (snd (scheduler_tick mock ev ps s))) \<and>
   (fst (scheduler_tick mock ev ps s) = Some WriteError \<longrightarrow>
      scheduler_loop mock ps (ev # evs) s = scheduler_tick mock ev ps s \<and>
      trace (snd (scheduler_tick mock ev ps s)) =
        trace s @ [Sleep stepsize, SerialWrite (encode_line (motion_cmd (pumps s) ps)) False])"
proof -
  have "fst (scheduler_tick mock ev ps s) \<noteq> None" if "fst (scheduler_tick mock ev ps s) = Some WriteError"
    using that by simp
  then show ?thesis
    using loop_mock_never_raises [of ps evs s] tick_one_write [of mock ev ps s] tick_fst [of mock ev ps s]
      loop_goes_on [of mock ev ps s evs] loop_ends [of mock ev ps s evs] tick_raises [of mock ev ps s]
    by blast
qed

theorem scheduler_write_failure_witness:
  "fst (scheduler_tick False all_ok (nat_truediv stepsize 60) real_connected) = None \<and>
   scheduler_loop False (nat_truediv stepsize 60) [all_ok] real_connected =
     (None, snd (scheduler_tick False all_ok (nat_truediv stepsize 60) real_connected)) \<and>
   fst (scheduler_tick False write_fails (nat_truediv stepsize 60) real_connected) = Some WriteError \<and>
   scheduler_loop False (nat_truediv stepsize 60) [write_fails, all_ok] real_connected =
     scheduler_tick False write_fails (nat_truediv stepsize 60) real_connected \<and>
   trace (snd (scheduler_tick False write_fails (nat_truediv stepsize 60) real_connected)) =
     trace real_connected @
     [Sleep stepsize, SerialWrite (encode_line (motion_cmd (pumps real_connected) (nat_truediv stepsize 60))) False]"
proof -
  have a: "fst (scheduler_tick False all_ok (nat_truediv stepsize 60) real_connected) = None"
    using real_connected_facts by (simp add: tick_fst all_ok_def)
  have b: "fst (scheduler_tick False write_fails (nat_truediv stepsize 60) real_connected) = Some WriteError"
    using real_connected_facts by (simp add: tick_fst write_fails_def)
  show ?thesis
    using a b scheduler_write_failure [of "nat_truediv stepsize 60" "[]" real_connected False all_ok]
      scheduler_write_failure [of "nat_truediv stepsize 60" "[all_ok]" real_connected False write_fails]
    by simp
qed

subsection \<open>The latch \<^verbatim>\<open>cancelled\<close>\<close>

lemma and_then_latched:
  assumes "\<And>s. latched m s \<Longrightarrow> latched m (snd (f s))"
    and "\<And>s. latched m s \<Longrightarrow> latched m (snd (g s))"
    and "latched m s"
  shows "latched m (snd (and_then f g s))"
proof (cases "f s")
  case (Pair r s')
  have "latched m s'" using assms(1) [OF assms(3)] Pair by simp
  then show ?thesis using assms(2) [of s'] Pair by (cases r) (simp_all add: and_then_def)
qed

lemma with_lock_latched:
  assumes "\<And>s. latched m s \<Longrightarrow> latched m (snd (f s))" and "latched m s"
  shows "latched m (snd (with_lock f s))"
proof -
  have "latched m (s\<lparr>lock_held := True\<rparr>)"
    using assms(2) by (simp add: latched_def motion_sent_def)
  then have "latched m (snd (f (s\<lparr>lock_held := True\<rparr>)))" by (rule assms(1))
  then show ?thesis
    by (cases "f (s\<lparr>lock_held := True\<rparr>)") (simp add: with_lock_def latched_def motion_sent_def)
qed

lemma send_latched:
  assumes "\<not> is_motion c" and "\<not> is_motion (encode_line c)" and "latched m s"
  shows "latched m (snd (send_gcode mock ev c s))"
  using assms by (simp add: send_gcode_def latched_def motion_sent_def emit_def)

lemma send_m92_latched:
  assumes "latched m s"
  shows "latched m (snd (send_m92 mock ev s))"
proof (cases "m92_parts (pumps s) [X, Y, Z]")
  case (Inl e)
  then show ?thesis using assms by (simp add: send_m92_def)
next
  case (Inr parts)
  have "latched m (snd (send_gcode mock ev (''M92 '' @ join '' '' parts) s))"
    using assms by (intro send_latched) (simp_all add: is_motion_def encode_line_def)
  then show ?thesis using Inr by (simp add: send_m92_def)
qed

lemma store_input_latched:
  "latched m s \<Longrightarrow> latched m (store_input pf fe sv s a)"
  by (simp add: store_input_def set_pump_def latched_def motion_sent_def)

lemma apply_rates_latched:
  assumes "latched m s"
  shows "latched m (snd (apply_rates mock ev pf fe sv s))"
  unfolding apply_rates_def
  apply (rule with_lock_latched [OF _ assms])
  apply (rule and_then_latched)
    apply (simp add: done_op_def store_inputs_def store_input_latched)
   apply (rule and_then_latched)
     apply (erule send_m92_latched)
    apply (rule and_then_latched)
      apply (erule send_latched [rotated 2]; simp add: is_motion_def encode_line_def)
     apply (rule and_then_latched)
       apply (erule send_latched [rotated 2]; simp add: is_motion_def encode_line_def)
      apply (erule send_latched [rotated 2]; simp add: is_motion_def encode_line_def)
     apply assumption+
  done

lemma cancel_sets_latch: "cancelled (snd (cancel_and_reset mock ev s))"
  by (simp add: cancel_and_reset_def op_defs send_gcode_def zero_flow_def)

lemma cancel_latched:
  assumes "latched m s"
  shows "latched m (snd (cancel_and_reset mock ev s))"
  unfolding cancel_and_reset_def
  apply (rule with_lock_latched [OF _ assms])
  apply (rule and_then_latched)
    apply (simp add: done_op_def zero_flow_def set_pump_def latched_def motion_sent_def)
   apply (rule and_then_latched)
     apply (erule send_latched [rotated 2]; simp add: is_motion_def encode_line_def)
    apply (rule and_then_latched)
      apply (erule send_latched [rotated 2]; simp add: is_motion_def encode_line_def)
     apply (simp add: done_op_def emit_def latched_def motion_sent_def)
    apply assumption+
  done

lemma tick_latched:
  "cancelled s \<Longrightarrow>
     scheduler_tick mock ev ps s = (None, (emit (Sleep stepsize) s)\<lparr>lock_held := False\<rparr>)"
  by (simp add: scheduler_tick_def tick_body_def with_lock_def emit_def)

lemma step_latched:
  assumes "latched m s" and "snd x \<noteq> Connect"
  shows "latched m (snd (step mock pf (d, s) x))"
proof (cases x)
  case (Pair ev e)
  have c: "cancelled s" using assms(1) by (simp add: latched_def)
  show ?thesis
  proof (cases e)
    case Connect
    then show ?thesis using assms Pair by simp
  next
    case Disconnect
    then show ?thesis using assms Pair
      by (simp add: disconnect_serial_def emit_def latched_def motion_sent_def)
  next
    case (TogglePump a)
    then show ?thesis using assms Pair
      by (simp add: toggle_pump_def emit_def set_pump_def latched_def motion_sent_def)
  next
    case (ApplyRates fe sv)
    then show ?thesis using assms Pair by (simp add: apply_rates_latched)
  next
    case CancelAndReset
    then show ?thesis using assms Pair by (simp add: cancel_latched)
  next
    case Tick
    then show ?thesis using assms Pair tick_latched [OF c, of mock ev]
      by (cases d) (simp_all add: emit_def latched_def motion_sent_def)
  qed
qed

lemma run_latched:
  "latched m s \<Longrightarrow> \<forall>x\<in>set es. snd x \<noteq> Connect \<Longrightarrow> latched m (snd (run mock pf es (d, s)))"
proof (induction es arbitrary: d s)
  case Nil
  then show ?case by (simp add: run_def)
next
  case (Cons x es)
  have l: "latched m (snd (step mock pf (d, s) x))"
    using Cons.prems by (intro step_latched) simp_all
  obtain d' s' where st: "step mock pf (d, s) x = (d', s')" by (cases "step mock pf (d, s) x")
  have "latched m (snd (run mock pf es (d', s')))"
    using Cons.IH [of s' d'] l st Cons.prems(2) by simp
  then show ?case by (simp add: run_def st)
qed

text \<open>
  C2. \<^verbatim>\<open>cancel_and_reset\<close> sets the latch. While the latch is set, a pass of the
  scheduler only sleeps, whatever \<^verbatim>\<open>connected\<close> is: it sends and writes nothing and does
  not raise. Through any sequence of events without a Connect (scheduler passes, Disconnect,
  pump toggles, Set Flow Rates, Cancel), started after \<^verbatim>\<open>cancel_and_reset\<close>, the latch
  stays set and no motion command is sent or written. \<^verbatim>\<open>connect_serial\<close> clears the
  latch, in both modes and whether or not the connection succeeds.
\<close>

theorem cancelled_latch:
  assumes "\<forall>x\<in>set es. snd x \<noteq> Connect"
  shows "cancelled (snd (cancel_and_reset mock ev s)) \<and>
    cancelled (snd (run mock pf es (d, snd (cancel_and_reset mock ev s)))) \<and>
    motion_sent (snd (run mock pf es (d, snd (cancel_and_reset mock ev s)))) =
      motion_sent (snd (cancel_and_reset mock ev s)) \<and>
    (cancelled s' \<longrightarrow>
       scheduler_tick mock ev' ps s' = (None, (emit (Sleep stepsize) s')\<lparr>lock_held := False\<rparr>)) \<and>
    \<not> cancelled (connect_serial mock ev' s')"
proof -
  let ?c = "snd (cancel_and_reset mock ev s)"
  have "latched (motion_sent ?c) ?c"
    by (simp add: latched_def cancel_sets_latch)
  then have "latched (motion_sent ?c) (snd (run mock pf es (d, ?c)))"
    using assms by (rule run_latched)
  then show ?thesis
    using tick_latched [of s' mock ev' ps] connect_clears [of mock ev' s']
    by (simp add: latched_def cancel_sets_latch)
qed

theorem cancelled_latch_witness:
  "connected (snd (cancel_and_reset True all_ok mock_connected)) \<and>
   cancelled (snd (cancel_and_reset True all_ok mock_connected)) \<and>
   cancelled (snd (run True (\<lambda>t. None)
     [(all_ok, Tick), (all_ok, TogglePump X), (all_ok, ApplyRates (\<lambda>a. ''50'') (\<lambda>a. ''none'')),
      (all_ok, Tick)]
     (None, snd (cancel_and_reset True all_ok mock_connected)))) \<and>
   motion_sent (snd (run True (\<lambda>t. None)
     [(all_ok, Tick), (all_ok, TogglePump X), (all_ok, ApplyRates (\<lambda>a. ''50'') (\<lambda>a. ''none'')),
      (all_ok, Tick)]
     (None, snd (cancel_and_reset True all_ok mock_connected)))) = [] \<and>
   scheduler_tick True all_ok (nat_truediv stepsize 60) (snd (cancel_and_reset True all_ok mock_connected)) =
     (None, (emit (Sleep stepsize) (snd (cancel_and_reset True all_ok mock_connected)))\<lparr>lock_held := False\<rparr>) \<and>
   \<not> cancelled (connect_serial True all_ok (snd (cancel_and_reset True all_ok mock_connected)))"
proof -
  have c: "connected (snd (cancel_and_reset True all_ok mock_connected))"
    by (simp add: cancel_and_reset_def op_defs send_gcode_def zero_flow_def mock_connected_def
        connect_serial_def)
  have m: "motion_sent (snd (cancel_and_reset True all_ok mock_connected)) = []"
    by (simp add: cancel_and_reset_def op_defs send_gcode_def zero_flow_def mock_connected_def
        connect_serial_def init_state_def motion_sent_def is_motion_def)
  show ?thesis
    using c m
      cancelled_latch [of "[(all_ok, Tick), (all_ok, TogglePump X),
        (all_ok, ApplyRates (\<lambda>a. ''50'') (\<lambda>a. ''none'')), (all_ok, Tick)]"
        True all_ok mock_connected "\<lambda>t. None" None
        "snd (cancel_and_reset True all_ok mock_connected)" all_ok "nat_truediv stepsize 60"]
    by simp
qed

subsection \<open>Toggling a pump\<close>

text \<open>
  C9. \<^verbatim>\<open>toggle_pump\<close> flips the flag \<^verbatim>\<open>enabled\<close> of its axis, but not under the lock:
  the function never takes it. At start, toggling pump X writes the field while the lock
  is free, whereas \<^verbatim>\<open>cancel_and_reset\<close>, which also writes fields of \<^verbatim>\<open>pumps\<close>, does
  so with the lock held.
\<close>

theorem toggle_pump_without_lock:
  "enabled (pumps (toggle_pump X init_state) X) = (\<not> enabled (pumps init_state X)) \<and>
   pump_writes (toggle_pump X init_state) = [(X, ''enabled'', False)] \<and>
   pump_writes (snd (cancel_and_reset True all_ok init_state)) =
     [(X, ''flow'', True), (Y, ''flow'', True), (Z, ''flow'', True)]"
  by (simp add: toggle_pump_def cancel_and_reset_def send_gcode_def zero_flow_def op_defs
      init_state_def)

subsection \<open>The characters of a formatted number\<close>

lemma digit_char_in: "d < 10 \<Longrightarrow> digit_char d \<in> digit_chars"
  unfolding digit_char_def digit_chars_def by (rule nth_mem) simp

lemma str_nat_chars: "set (str_nat n) \<subseteq> digit_chars"
proof (induction n rule: str_nat.induct)
  case (1 n)
  show ?case
  proof (cases "n < 10")
    case True
    then show ?thesis by (subst str_nat.simps) (simp add: digit_char_in)
  next
    case False
    have "n mod 10 < 10" by simp
    then have "digit_char (n mod 10) \<in> digit_chars" by (rule digit_char_in)
    then show ?thesis using 1 False by (subst str_nat.simps) simp
  qed
qed

lemma strip_zeros_subset: "set (strip_zeros ds) \<subseteq> set ds"
  by (auto simp add: strip_zeros_def dest: set_dropWhileD)

lemma digits_of_chars: "set (fst (digits_of r)) \<subseteq> digit_chars"
proof (cases r)
  case None
  then show ?thesis by (simp add: digits_of_def digit_chars_def)
next
  case (Some cx)
  then show ?thesis
    using strip_zeros_subset [of "str_nat (fst cx)"] str_nat_chars [of "fst cx"]
    by (cases cx) (auto simp add: digits_of_def)
qed

lemma shortest_digits_chars: "set (fst (shortest_digits m e)) \<subseteq> digit_chars"
  by (simp add: shortest_digits_def digits_of_chars)

lemma exp_digits_chars: "set (exp_digits x) \<subseteq> digit_chars \<union> {CHR ''-'', CHR ''+''}"
  using str_nat_chars [of "nat \<bar>x\<bar>"] by (auto simp add: exp_digits_def digit_chars_def)

lemma format_short_plain:
  assumes "\<not> uses_exponent d" and "set ds \<subseteq> digit_chars"
  shows "set (format_short (ds, d)) \<subseteq> digit_chars \<union> {CHR ''.''}"
proof -
  have z: "CHR ''0'' \<in> digit_chars" by (simp add: digit_chars_def)
  have t: "set (take n ds) \<subseteq> digit_chars" for n
    using set_take_subset [of n ds] assms(2) by blast
  have dr: "set (drop n ds) \<subseteq> digit_chars" for n
    using set_drop_subset [of n ds] assms(2) by blast
  show ?thesis
    using assms z t [of "nat d"] dr [of "nat d"] by (auto simp add: format_short_def)
qed

lemma format_short_exp:
  assumes "uses_exponent d"
  shows "CHR ''e'' \<in> set (format_short (ds, d))"
  using assms by (simp add: format_short_def)

lemma format_short_chars:
  assumes "set ds \<subseteq> digit_chars"
  shows "set (format_short (ds, d)) \<subseteq> digit_chars \<union> {CHR ''.'', CHR ''e'', CHR ''-'', CHR ''+''}"
proof (cases "uses_exponent d")
  case False
  then show ?thesis using format_short_plain [OF False assms] by blast
next
  case True
  have t: "set (take n ds) \<subseteq> digit_chars" for n
    using set_take_subset [of n ds] assms by blast
  have dr: "set (drop n ds) \<subseteq> digit_chars" for n
    using set_drop_subset [of n ds] assms by blast
  show ?thesis
    using True t [of 1] dr [of 1] exp_digits_chars [of "d - 1"]
    by (auto simp add: format_short_def)
qed

lemma e_not_digit: "CHR ''e'' \<notin> digit_chars" and space_not_digit: "CHR '' '' \<notin> digit_chars"
  by (simp_all add: digit_chars_def)

lemma float_repr_chars:
  "set (float_repr x) \<subseteq> digit_chars \<union> set ''.e-+infa''"
proof (cases x)
  case (Finite sg m e)
  show ?thesis
  proof (cases "m = 0")
    case True
    then show ?thesis using Finite by (simp add: digit_chars_def)
  next
    case False
    have "set (format_short (shortest_digits m e)) \<subseteq>
        digit_chars \<union> {CHR ''.'', CHR ''e'', CHR ''-'', CHR ''+''}"
      using format_short_chars [OF shortest_digits_chars, of m e "snd (shortest_digits m e)"] by simp
    then show ?thesis using Finite False by auto
  qed
next
  case (Infinity sg)
  then show ?thesis by simp
next
  case NaN
  then show ?thesis by simp
qed

lemma float_repr_no_space: "CHR '' '' \<notin> set (float_repr x)"
  using float_repr_chars [of x] space_not_digit by auto

lemma float_repr_exponent: "CHR ''e'' \<in> set (float_repr x) \<longleftrightarrow> exponent_form x"
proof (cases x)
  case (Finite sg m e)
  show ?thesis
  proof (cases "m = 0")
    case True
    then show ?thesis using Finite by (simp add: exponent_form_def)
  next
    case False
    show ?thesis
    proof (cases "uses_exponent (snd (shortest_digits m e))")
      case True
      then have "CHR ''e'' \<in> set (format_short (shortest_digits m e))"
        using format_short_exp [of "snd (shortest_digits m e)" "fst (shortest_digits m e)"] by simp
      then show ?thesis using Finite False True by (simp add: exponent_form_def)
    next
      case nx: False
      have "set (format_short (shortest_digits m e)) \<subseteq> digit_chars \<union> {CHR ''.''}"
        using format_short_plain [OF nx, of "fst (shortest_digits m e)"] shortest_digits_chars [of m e]
        by simp
      then have "CHR ''e'' \<notin> set (format_short (shortest_digits m e))"
        using e_not_digit by auto
      then show ?thesis using Finite False nx by (simp add: exponent_form_def)
    qed
  qed
next
  case (Infinity sg)
  then show ?thesis by (simp add: exponent_form_def)
next
  case NaN
  then show ?thesis by (simp add: exponent_form_def)
qed

subsection \<open>The motion command\<close>

lemma fields_word: "CHR '' '' \<notin> set w \<Longrightarrow> cmd_fields w = [w]"
  by (induction w) auto

lemma fields_append:
  "CHR '' '' \<notin> set w \<Longrightarrow> cmd_fields (w @ '' '' @ rest) = w # cmd_fields rest"
  by (induction w) auto

lemma fields_concat:
  assumes "CHR '' '' \<notin> set w" and "\<forall>a\<in>set as. CHR '' '' \<notin> set (f a)"
    and "CHR '' '' \<notin> set l"
  shows "cmd_fields (w @ concat (map (\<lambda>a. '' '' @ f a) as) @ '' '' @ l) = w # map f as @ [l]"
  using assms
proof (induction as arbitrary: w)
  case Nil
  then show ?case using fields_append [of w l] by (simp add: fields_word)
next
  case (Cons a as)
  have "cmd_fields (w @ '' '' @ (f a @ concat (map (\<lambda>a. '' '' @ f a) as) @ '' '' @ l)) =
      w # cmd_fields (f a @ concat (map (\<lambda>a. '' '' @ f a) as) @ '' '' @ l)"
    using Cons.prems(1) by (rule fields_append)
  moreover have "cmd_fields (f a @ concat (map (\<lambda>a. '' '' @ f a) as) @ '' '' @ l) = f a # map f as @ [l]"
    using Cons.prems by (intro Cons.IH) simp_all
  ultimately show ?case by simp
qed

lemma motion_cmd_closed:
  "motion_cmd ps pstep =
     ''G1'' @ concat (map (\<lambda>a. '' '' @ rate_field ps a) (enabled_axes ps)) @ '' F'' @ float_repr pstep"
  by (simp add: motion_cmd_def pump_items_def add_field_def rate_field_def enabled_axes_def)

lemma axis_name_no_space: "CHR '' '' \<notin> set (axis_name a)"
  by (cases a) simp_all

lemma rate_field_no_space: "CHR '' '' \<notin> set (rate_field ps a)"
  by (simp add: rate_field_def axis_name_no_space float_repr_no_space)

lemma motion_cmd_fields:
  "cmd_fields (motion_cmd ps pstep) = ''G1'' # map (rate_field ps) (enabled_axes ps) @ [''F'' @ float_repr pstep]"
proof -
  have "cmd_fields (''G1'' @ concat (map (\<lambda>a. '' '' @ rate_field ps a) (enabled_axes ps)) @ '' '' @ (''F'' @ float_repr pstep))
      = ''G1'' # map (rate_field ps) (enabled_axes ps) @ [''F'' @ float_repr pstep]"
    by (rule fields_concat) (simp_all add: rate_field_no_space float_repr_no_space)
  then show ?thesis by (simp add: motion_cmd_closed)
qed

lemma tick_sends:
  "connected s \<Longrightarrow> \<not> cancelled s \<Longrightarrow>
     scheduler_tick mock ev pstep s =
       with_lock (send_gcode mock ev (motion_cmd (pumps s) pstep)) (emit (Sleep stepsize) s)"
  by (simp add: scheduler_tick_def tick_body_def with_lock_def emit_def send_gcode_def)

lemmas float_ev = round_to_double_def round_with_shift_def pack_double_def binary_shift_def pick_shift_def
  round_scaled_def scaled_quotient_def round_half_even_def nearest_even_def bit_length.simps
  float_num_def float_den_def dec_exp_def leading_shift.simps str_nat.simps digit_char_def
  candidate_def candidate_exp_def candidate_frac_def choose_digits_def reads_back_def
  shortest_digits_def digits_of_def strip_zeros_def format_short_def uses_exponent_def exp_digits_def
  float_of_nat_def nat_truediv_def

lemma repr_period: "float_repr (nat_truediv stepsize 60) = ''0.016666666666666666''"
  by (simp add: stepsize_def float_ev)

lemma repr_rate_0: "float_repr (printer_flow float_zero) = ''0.0''"
  by (simp add: printer_flow_def float_zero_def round_to_double_def)

lemma rate_6000: "printer_flow (float_of_nat 6000) = Finite False 7205759403792794 (- 56)"
  by (simp add: printer_flow_def float_ev)

lemma tenth: "round_to_double False 1 10 0 = Finite False 7205759403792794 (- 56)"
  by (simp add: float_ev)

lemma repr_tenth: "float_repr (Finite False 7205759403792794 (- 56)) = ''0.1''"
  by (simp add: float_ev)

lemma enabled_axes_iff: "a \<in> set (enabled_axes ps) \<longleftrightarrow> enabled (ps a)"
  by (cases a) (simp_all add: enabled_axes_def)

text \<open>
  C1. In a pass of the scheduler made while connected and not cancelled, the string
  passed to \<^verbatim>\<open>send_gcode\<close> is \<^verbatim>\<open>G1\<close>, then one rate field for each enabled axis,
  in the order X, Y, Z, then one field \<^verbatim>\<open>F\<close> with the period, each after a single
  space: these are exactly its fields. With all three axes disabled the command is \<^verbatim>\<open>G1\<close>
  and the field \<^verbatim>\<open>F\<close> alone, and is sent all the same.
\<close>

theorem motion_command_fields:
  assumes "connected s" and "\<not> cancelled s"
  shows "scheduler_tick mock ev pstep s =
       with_lock (send_gcode mock ev (motion_cmd (pumps s) pstep)) (emit (Sleep stepsize) s) \<and>
     cmd_fields (motion_cmd (pumps s) pstep) =
       ''G1'' # map (rate_field (pumps s)) (enabled_axes (pumps s)) @ [''F'' @ float_repr pstep] \<and>
     motion_cmd (pumps s) pstep =
       ''G1'' @ concat (map (\<lambda>a. '' '' @ rate_field (pumps s) a) (enabled_axes (pumps s))) @
       '' F'' @ float_repr pstep \<and>
     ((\<forall>a. \<not> enabled (pumps s a)) \<longrightarrow> motion_cmd (pumps s) pstep = ''G1 F'' @ float_repr pstep)"
proof -
  have "motion_cmd (pumps s) pstep = ''G1 F'' @ float_repr pstep" if "\<forall>a. \<not> enabled (pumps s a)"
    using that by (simp add: motion_cmd_closed enabled_axes_def)
  then show ?thesis
    using tick_sends [OF assms, of mock ev pstep] motion_cmd_fields [of "pumps s" pstep]
      motion_cmd_closed [of "pumps s" pstep]
    by blast
qed

theorem motion_command_fields_witness:
  "connected (toggle_pump Y mock_connected) \<and> \<not> cancelled (toggle_pump Y mock_connected) \<and>
   cmd_fields (motion_cmd (pumps (toggle_pump Y mock_connected)) (nat_truediv stepsize 60)) =
     [''G1'', ''X0.0'', ''Z0.0'', ''F0.016666666666666666''] \<and>
   sent (trace (snd (scheduler_tick True all_ok (nat_truediv stepsize 60) (toggle_pump Y mock_connected)))) =
     [''G1 X0.0 Z0.0 F0.016666666666666666''] \<and>
   (\<forall>a. \<not> enabled (pumps (toggle_pump X (toggle_pump Y (toggle_pump Z mock_connected))) a)) \<and>
   motion_cmd (pumps (toggle_pump X (toggle_pump Y (toggle_pump Z mock_connected)))) (nat_truediv stepsize 60) =
     ''G1 F0.016666666666666666''"
proof -
  have e: "\<not> enabled (pumps (toggle_pump X (toggle_pump Y (toggle_pump Z mock_connected))) a)" for a
    by (cases a) (simp_all add: toggle_pump_def mock_connected_def connect_serial_def init_state_def op_defs)
  have s1: "connected (toggle_pump Y mock_connected) \<and> \<not> cancelled (toggle_pump Y mock_connected)"
    by (simp add: toggle_pump_def mock_connected_def connect_serial_def init_state_def op_defs)
  have s2: "connected (toggle_pump X (toggle_pump Y (toggle_pump Z mock_connected))) \<and>
      \<not> cancelled (toggle_pump X (toggle_pump Y (toggle_pump Z mock_connected)))"
    by (simp add: toggle_pump_def mock_connected_def connect_serial_def init_state_def op_defs)
  have p: "pumps (toggle_pump Y mock_connected) = (pumps init_state)(Y := (pumps init_state Y)\<lparr>enabled := False\<rparr>)"
    by (simp add: toggle_pump_def mock_connected_def connect_serial_def init_state_def op_defs)
  have f: "rate_field (pumps (toggle_pump Y mock_connected)) X = ''X0.0''"
     "rate_field (pumps (toggle_pump Y mock_connected)) Z = ''Z0.0''"
    by (simp_all add: p rate_field_def init_state_def repr_rate_0)
  have ax: "enabled_axes (pumps (toggle_pump Y mock_connected)) = [X, Z]"
    by (simp add: p enabled_axes_def init_state_def)
  have ax3: "enabled_axes (pumps (toggle_pump X (toggle_pump Y (toggle_pump Z mock_connected)))) = []"
    using e by (simp add: enabled_axes_def)
  have t: "sent (trace (toggle_pump Y mock_connected)) = []"
    by (simp add: toggle_pump_def mock_connected_def connect_serial_def init_state_def op_defs)
  show ?thesis
    using s1 s2 e motion_command_fields [of "toggle_pump Y mock_connected" True all_ok "nat_truediv stepsize 60"]
      motion_command_fields [of "toggle_pump X (toggle_pump Y (toggle_pump Z mock_connected))" True all_ok "nat_truediv stepsize 60"]
    by (simp add: f ax ax3 t repr_period with_lock_def send_gcode_def emit_def)
qed

text \<open>
  C4. The rate field of an enabled axis in the motion command is the letter of the axis
  followed by the text of \<^verbatim>\<open>(flow / 60) / 1000\<close>, both divisions being those of
  Python floats. For the flow \<^verbatim>\<open>6000.0\<close> this value is the double that the literal
  \<^verbatim>\<open>0.1\<close> denotes (the double nearest to one tenth), printed as \<^verbatim>\<open>0.1\<close>.
\<close>

theorem flow_unit_conversion:
  "(enabled (ps a) \<longrightarrow>
      axis_name a @ float_repr (float_div_nat (float_div_nat (flow (ps a)) 60) 1000)
        \<in> set (cmd_fields (motion_cmd ps pstep))) \<and>
   float_div_nat (float_div_nat (float_of_nat 6000) 60) 1000 = round_to_double False 1 10 0 \<and>
   float_repr (float_div_nat (float_div_nat (float_of_nat 6000) 60) 1000) = ''0.1''"
proof -
  have "rate_field ps a \<in> set (cmd_fields (motion_cmd ps pstep))" if "enabled (ps a)"
    using that by (simp add: motion_cmd_fields enabled_axes_iff)
  then show ?thesis
    using rate_6000 tenth repr_tenth by (simp add: rate_field_def printer_flow_def)
qed

theorem flow_unit_conversion_witness:
  "enabled (((pumps init_state)(X := (pumps init_state X)\<lparr>flow := float_of_nat 6000\<rparr>)) X) \<and>
   ''X0.1'' \<in> set (cmd_fields (motion_cmd ((pumps init_state)(X := (pumps init_state X)\<lparr>flow := float_of_nat 6000\<rparr>))
      (nat_truediv stepsize 60)))"
proof -
  note h = flow_unit_conversion [of "(pumps init_state)(X := (pumps init_state X)\<lparr>flow := float_of_nat 6000\<rparr>)" X
      "nat_truediv stepsize 60"]
  have r: "float_repr (float_div_nat (float_div_nat (float_of_nat 6000) 60) 1000) = ''0.1''"
    using h by blast
  have m: "enabled (((pumps init_state)(X := (pumps init_state X)\<lparr>flow := float_of_nat 6000\<rparr>)) X) \<longrightarrow>
      axis_name X @ float_repr (float_div_nat (float_div_nat
        (flow (((pumps init_state)(X := (pumps init_state X)\<lparr>flow := float_of_nat 6000\<rparr>)) X)) 60) 1000)
      \<in> set (cmd_fields (motion_cmd ((pumps init_state)(X := (pumps init_state X)\<lparr>flow := float_of_nat 6000\<rparr>))
        (nat_truediv stepsize 60)))"
    using h by blast
  show ?thesis
    using m by (simp add: init_state_def r)
qed

subsection \<open>Exponent notation\<close>

lemma str_int_chars: "set (str_int i) \<subseteq> digit_chars \<union> {CHR ''-''}"
  using str_nat_chars [of "nat (- i)"] str_nat_chars [of "nat i"] by (auto simp add: str_int_def)

lemma axis_name_chars: "set (axis_name a) \<subseteq> {CHR ''X'', CHR ''Y'', CHR ''Z''}"
  by (cases a) simp_all

lemma m92_part_no_e: "CHR ''e'' \<notin> set (m92_part a k)"
  using str_int_chars [of "if a \<in> {X, Y} then - \<bar>k\<bar> else k"] axis_name_chars [of a] e_not_digit
  by (auto simp add: m92_part_def)

lemma m92_parts_no_e:
  "m92_parts ps as = Inr parts \<Longrightarrow> \<forall>p\<in>set parts. CHR ''e'' \<notin> set p"
proof (induction as arbitrary: parts)
  case Nil
  then show ?case by simp
next
  case (Cons a as)
  then show ?case
    by (auto simp add: m92_part_no_e split: option.splits sum.splits)
qed

lemma join_chars: "set (join sep xs) \<subseteq> set sep \<union> (\<Union>x\<in>set xs. set x)"
  by (induction sep xs rule: join.induct) auto

lemma m92_cmd_no_e:
  assumes "m92_parts ps [X, Y, Z] = Inr parts"
  shows "CHR ''e'' \<notin> set (''M92 '' @ join '' '' parts)"
proof -
  have "\<forall>p\<in>set parts. CHR ''e'' \<notin> set p" using assms by (rule m92_parts_no_e)
  then have "CHR ''e'' \<notin> set (join '' '' parts)"
    using join_chars [of "'' ''" parts] by auto
  then show ?thesis by simp
qed

lemma rate_field_e: "CHR ''e'' \<in> set (rate_field ps a) \<longleftrightarrow> exponent_form (printer_flow (flow (ps a)))"
  using axis_name_chars [of a] by (auto simp add: rate_field_def float_repr_exponent)

lemma motion_cmd_e:
  "CHR ''e'' \<in> set (motion_cmd ps pstep) \<longleftrightarrow>
     (\<exists>a. enabled (ps a) \<and> exponent_form (printer_flow (flow (ps a)))) \<or> exponent_form pstep"
proof -
  have "CHR ''e'' \<in> set (motion_cmd ps pstep) \<longleftrightarrow>
      (\<exists>a\<in>set (enabled_axes ps). CHR ''e'' \<in> set (rate_field ps a)) \<or>
      CHR ''e'' \<in> set (float_repr pstep)"
    by (simp add: motion_cmd_closed)
  then show ?thesis
    by (simp add: rate_field_e enabled_axes_iff float_repr_exponent Bex_def)
qed

lemma rate_3: "printer_flow (float_of_nat 3) = Finite False 7378697629483821 (- 67)"
  by (simp add: printer_flow_def float_ev)

lemma repr_rate_3: "float_repr (printer_flow (float_of_nat 3)) = ''5e-05''"
  by (simp add: rate_3) (simp add: float_ev)

text \<open>
  C8, as the claim states it, fails for the motion command: with the flow of pump X at
  \<^verbatim>\<open>3.0\<close> (microlitres per minute) and the other flows at zero, the rate of X is
  printed in exponent notation.
\<close>

theorem exponent_in_motion_command:
  "motion_cmd ((pumps init_state)(X := (pumps init_state X)\<lparr>flow := float_of_nat 3\<rparr>)) (nat_truediv stepsize 60) =
     ''G1 X5e-05 Y0.0 Z0.0 F0.016666666666666666'' \<and>
   CHR ''e'' \<in> set (motion_cmd ((pumps init_state)(X := (pumps init_state X)\<lparr>flow := float_of_nat 3\<rparr>))
     (nat_truediv stepsize 60))"
proof -
  have "motion_cmd ((pumps init_state)(X := (pumps init_state X)\<lparr>flow := float_of_nat 3\<rparr>)) (nat_truediv stepsize 60) =
     ''G1 X5e-05 Y0.0 Z0.0 F0.016666666666666666''"
    by (simp add: motion_cmd_closed enabled_axes_def rate_field_def init_state_def repr_rate_3
        repr_rate_0 repr_period)
  then show ?thesis by simp
qed

lemma float_repr_plain:
  assumes "\<not> exponent_form (Finite sg m e)"
  shows "set (float_repr (Finite sg m e)) \<subseteq> digit_chars \<union> {CHR ''.'', CHR ''-''}"
proof (cases "m = 0")
  case True
  then show ?thesis by (simp add: digit_chars_def)
next
  case False
  then have nx: "\<not> uses_exponent (snd (shortest_digits m e))"
    using assms by (simp add: exponent_form_def)
  have "set (format_short (shortest_digits m e)) \<subseteq> digit_chars \<union> {CHR ''.''}"
    using format_short_plain [OF nx, of "fst (shortest_digits m e)"] shortest_digits_chars [of m e]
    by simp
  then show ?thesis using False by auto
qed

lemma exponent_form_iff:
  "exponent_form x \<longleftrightarrow>
     (\<exists>sg m e. x = Finite sg m e \<and> m \<noteq> 0 \<and>
        (snd (shortest_digits m e) \<le> - 4 \<or> 16 < snd (shortest_digits m e)))"
  by (cases x) (simp_all add: exponent_form_def uses_exponent_def)

text \<open>
  C8, amended. The calibration command never contains an exponent marker. The fields of
  the motion command are \<^verbatim>\<open>G1\<close>, for each enabled axis its letter followed by the
  text \<^verbatim>\<open>repr\<close> gives for its rate, and \<^verbatim>\<open>F\<close> followed by the text for the period.
  The command contains an exponent marker exactly when one of these values is printed
  with one, and a float is printed with one exactly when it is finite, not zero, and the
  decimal point of the shortest digit string that reads back as the float stands at most
  at \<open>-4\<close> or beyond \<open>16\<close>. The text of every other finite float consists of decimal
  digits, a decimal point and a minus sign only; that of a float that is not finite is
  \<^verbatim>\<open>nan\<close>, \<^verbatim>\<open>inf\<close> or \<^verbatim>\<open>-inf\<close>.
\<close>

theorem number_formatting:
  "(m92_parts ps [X, Y, Z] = Inr parts \<longrightarrow> CHR ''e'' \<notin> set (''M92 '' @ join '' '' parts)) \<and>
   cmd_fields (motion_cmd ps pstep) =
     ''G1'' # map (\<lambda>a. axis_name a @ float_repr (printer_flow (flow (ps a)))) (enabled_axes ps) @
     [''F'' @ float_repr pstep] \<and>
   (CHR ''e'' \<in> set (motion_cmd ps pstep) \<longleftrightarrow>
      (\<exists>a. enabled (ps a) \<and> exponent_form (printer_flow (flow (ps a)))) \<or> exponent_form pstep) \<and>
   (CHR ''e'' \<in> set (float_repr x) \<longleftrightarrow> exponent_form x) \<and>
   (exponent_form x \<longleftrightarrow>
      (\<exists>sg m e. x = Finite sg m e \<and> m \<noteq> 0 \<and>
         (snd (shortest_digits m e) \<le> - 4 \<or> 16 < snd (shortest_digits m e)))) \<and>
   (\<not> exponent_form (Finite sg m e) \<longrightarrow>
      set (float_repr (Finite sg m e)) \<subseteq> digit_chars \<union> {CHR ''.'', CHR ''-''}) \<and>
   float_repr NaN = ''nan'' \<and> float_repr (Infinity False) = ''inf'' \<and>
   float_repr (Infinity True) = ''-inf''"
proof -
  have f: "cmd_fields (motion_cmd ps pstep) =
     ''G1'' # map (\<lambda>a. axis_name a @ float_repr (printer_flow (flow (ps a)))) (enabled_axes ps) @
     [''F'' @ float_repr pstep]"
    using motion_cmd_fields [of ps pstep] by (simp add: rate_field_def [abs_def])
  show ?thesis
    using f motion_cmd_e [of ps pstep] m92_cmd_no_e [of ps parts] float_repr_exponent [of x]
      exponent_form_iff [of x] float_repr_plain [of sg m e]
    by simp
qed

theorem number_formatting_witness:
  "m92_parts (pumps init_state) [X, Y, Z] = Inr [''X0'', ''Y0'', ''Z0''] \<and>
   CHR ''e'' \<notin> set (''M92 '' @ join '' '' [''X0'', ''Y0'', ''Z0'']) \<and>
   \<not> exponent_form (Finite False 7205759403792794 (- 56)) \<and>
   set (float_repr (Finite False 7205759403792794 (- 56))) \<subseteq> digit_chars \<union> {CHR ''.'', CHR ''-''} \<and>
   \<not> exponent_form (printer_flow float_zero) \<and>
   \<not> exponent_form (nat_truediv stepsize 60) \<and>
   CHR ''e'' \<notin> set (motion_cmd (pumps init_state) (nat_truediv stepsize 60))"
proof -
  have p: "m92_parts (pumps init_state) [X, Y, Z] = Inr [''X0'', ''Y0'', ''Z0'']"
    by (simp add: init_state_def syringes_def m92_part_def str_int_def str_nat.simps digit_char_def)
  have z: "\<not> exponent_form (printer_flow float_zero)"
    using float_repr_exponent [of "printer_flow float_zero"] by (simp add: repr_rate_0)
  have q: "\<not> exponent_form (nat_truediv stepsize 60)"
    using float_repr_exponent [of "nat_truediv stepsize 60"] by (simp add: repr_period)
  have r: "\<not> exponent_form (Finite False 7205759403792794 (- 56))"
    using float_repr_exponent [of "Finite False 7205759403792794 (- 56)"] unfolding repr_tenth
    by simp
  note h = number_formatting [of "pumps init_state" "[''X0'', ''Y0'', ''Z0'']" "nat_truediv stepsize 60"
      "printer_flow float_zero" False 7205759403792794 "- 56"]
  have s: "set (float_repr (Finite False 7205759403792794 (- 56))) \<subseteq> digit_chars \<union> {CHR ''.'', CHR ''-''}"
    using h r by blast
  have e: "CHR ''e'' \<notin> set (''M92 '' @ join '' '' [''X0'', ''Y0'', ''Z0''])"
    using h p by blast
  have m: "CHR ''e'' \<notin> set (motion_cmd (pumps init_state) (nat_truediv stepsize 60))"
    using motion_cmd_e [of "pumps init_state" "nat_truediv stepsize 60"] z q
    by (simp add: init_state_def)
  show ?thesis using p e r s z q m by blast
qed

subsection \<open>Applying rates\<close>

lemma and_then_fst:
  "fst (and_then f g s) = (if fst (f s) = None then fst (g (snd (f s))) else fst (f s))"
  by (cases "f s") (auto simp add: and_then_def split: option.splits)

lemma and_then_snd:
  "snd (and_then f g s) = (if fst (f s) = None then snd (g (snd (f s))) else snd (f s))"
  by (cases "f s") (auto simp add: and_then_def split: option.splits)

lemma with_lock_fst: "fst (with_lock f s) = fst (f (s\<lparr>lock_held := True\<rparr>))"
  by (cases "f (s\<lparr>lock_held := True\<rparr>)") (simp add: with_lock_def)

lemma with_lock_snd:
  "snd (with_lock f s) = (snd (f (s\<lparr>lock_held := True\<rparr>)))\<lparr>lock_held := False\<rparr>"
  by (cases "f (s\<lparr>lock_held := True\<rparr>)") (simp add: with_lock_def)

lemma send_gcode_fst:
  "fst (send_gcode mock ev c s) =
     (if connected s \<and> \<not> mock \<and> ser s \<noteq> None \<and> \<not> write_ok ev (encode_line c)
      then Some WriteError else None)"
  by (simp add: send_gcode_def)

lemma send_gcode_keeps [simp]:
  "pumps (snd (send_gcode mock ev c s)) = pumps s"
  "connected (snd (send_gcode mock ev c s)) = connected s"
  "ser (snd (send_gcode mock ev c s)) = ser s"
  by (simp_all add: send_gcode_def emit_def)

lemma send_gcode_sent:
  "sent (trace (snd (send_gcode mock ev c s))) =
     sent (trace s) @ (if connected s \<and> fst (send_gcode mock ev c s) = None then [c] else [])"
  by (simp add: send_gcode_def emit_def)

lemma selected_id_cases:
  "selected_id n =
     (if n = ''2 mL HenkeJect'' then ''3'' else if n = ''5 mL HenkeJect'' then ''2''
      else if n = ''10 mL HenkeJect'' then ''1'' else ''0'')"
  by (simp add: selected_id_def syringe_name_to_id_def syringes_def)

lemma selected_steps_cases:
  "selected_steps n =
     (if n = ''10 mL HenkeJect'' then 20927 else if n = ''5 mL HenkeJect'' then 10800
      else if n = ''2 mL HenkeJect'' then 20003 else 0)"
  by (simp add: selected_steps_def selected_id_cases syringes_def)

lemma selected_lookup:
  "\<exists>info. map_of syringes (selected_id n) = Some info \<and> steps info = selected_steps n"
  by (simp add: selected_steps_def selected_id_cases syringes_def)

lemma store_inputs_pumps:
  "flow (pumps (store_inputs pf fe sv s) a) = parse_flow pf (fe a)"
  "syringe (pumps (store_inputs pf fe sv s) a) = selected_id (sv a)"
  "enabled (pumps (store_inputs pf fe sv s) a) = enabled (pumps s a)"
  by (cases a; simp add: store_inputs_def store_input_def set_pump_def)+

lemma store_inputs_keeps [simp]:
  "connected (store_inputs pf fe sv s) = connected s"
  "ser (store_inputs pf fe sv s) = ser s"
  "trace (store_inputs pf fe sv s) = trace s"
  by (simp_all add: store_inputs_def store_input_def set_pump_def)

lemma m92_parts_selected:
  assumes "\<forall>a. syringe (ps a) = selected_id (sv a)"
  shows "m92_parts ps [X, Y, Z] =
     Inr [m92_part X (selected_steps (sv X)), m92_part Y (selected_steps (sv Y)),
          m92_part Z (selected_steps (sv Z))]"
proof -
  obtain ix iy iz where
    "map_of syringes (selected_id (sv X)) = Some ix" "steps ix = selected_steps (sv X)"
    "map_of syringes (selected_id (sv Y)) = Some iy" "steps iy = selected_steps (sv Y)"
    "map_of syringes (selected_id (sv Z)) = Some iz" "steps iz = selected_steps (sv Z)"
    using selected_lookup [of "sv X"] selected_lookup [of "sv Y"] selected_lookup [of "sv Z"]
    by blast
  then show ?thesis using assms by simp
qed

lemma send_m92_stored:
  "send_m92 mock ev (store_inputs pf fe sv s) =
     send_gcode mock ev (calibration_cmd sv) (store_inputs pf fe sv s)"
proof -
  have "m92_parts (pumps (store_inputs pf fe sv s)) [X, Y, Z] =
     Inr [m92_part X (selected_steps (sv X)), m92_part Y (selected_steps (sv Y)),
          m92_part Z (selected_steps (sv Z))]"
    by (rule m92_parts_selected) (simp add: store_inputs_pumps)
  then show ?thesis by (simp add: send_m92_def calibration_cmd_def m92_part_def)
qed

lemma apply_rates_unfold:
  "apply_rates mock ev pf fe sv s =
     with_lock
       (\<lambda>s. (and_then (send_gcode mock ev (calibration_cmd sv))
             (and_then (send_gcode mock ev ''M302 S0'')
             (and_then (send_gcode mock ev ''M211 S0'')
                       (send_gcode mock ev ''G91'')))) (store_inputs pf fe sv s)) s"
  by (simp add: apply_rates_def with_lock_def and_then_def [of "done_op (store_inputs pf fe sv)"]
      done_op_def and_then_def [of "send_m92 mock ev"] send_m92_stored
      and_then_def [of "send_gcode mock ev (calibration_cmd sv)", symmetric])

lemma apply_rates_pumps:
  "pumps (snd (apply_rates mock ev pf fe sv s)) = pumps (store_inputs pf fe sv (s\<lparr>lock_held := True\<rparr>))"
  by (simp add: apply_rates_unfold with_lock_snd and_then_snd)

lemma apply_rates_fst:
  "fst (apply_rates mock ev pf fe sv s) =
     (if connected s \<and> \<not> mock \<and> ser s \<noteq> None \<and>
         (\<not> write_ok ev (encode_line (calibration_cmd sv)) \<or> \<not> write_ok ev (encode_line ''M302 S0'') \<or>
          \<not> write_ok ev (encode_line ''M211 S0'') \<or> \<not> write_ok ev (encode_line ''G91''))
      then Some WriteError else None)"
  by (auto simp add: apply_rates_unfold with_lock_fst and_then_fst and_then_snd send_gcode_fst)

lemma apply_rates_sent:
  "connected s \<Longrightarrow> fst (apply_rates mock ev pf fe sv s) = None \<Longrightarrow>
     sent (trace (snd (apply_rates mock ev pf fe sv s))) =
       sent (trace s) @ [calibration_cmd sv, ''M302 S0'', ''M211 S0'', ''G91'']"
  by (auto simp add: apply_rates_unfold with_lock_fst with_lock_snd and_then_fst and_then_snd
      send_gcode_fst send_gcode_sent split: if_splits)
text \<open>
  C3. For every selection in the three menus, \<^verbatim>\<open>apply_rates\<close> stores for each axis
  the identifier the selection stands for (\<^verbatim>\<open>'0'\<close> for an unknown name) and, when
  connected and no write fails, sends \<^verbatim>\<open>M92\<close> with the field of X and of Y carrying
  the negated absolute value of the steps of the selected syringe and the field of Z
  carrying the steps unchanged, then the three standing commands. The steps are those
  of the table: 20927, 10800, 20003, and 0 for \<^verbatim>\<open>none\<close> or an unknown name.
\<close>

theorem calibration_command:
  assumes "connected s" and "mock \<or> ser s = None \<or> (\<forall>l. write_ok ev l)"
  shows "fst (apply_rates mock ev pf fe sv s) = None \<and>
     sent (trace (snd (apply_rates mock ev pf fe sv s))) =
       sent (trace s) @
       [''M92 X'' @ str_int (- \<bar>selected_steps (sv X)\<bar>) @
        '' Y'' @ str_int (- \<bar>selected_steps (sv Y)\<bar>) @
        '' Z'' @ str_int (selected_steps (sv Z)),
        ''M302 S0'', ''M211 S0'', ''G91''] \<and>
     (\<forall>a. syringe (pumps (snd (apply_rates mock ev pf fe sv s)) a) = selected_id (sv a)) \<and>
     (\<forall>n. selected_steps n =
        (if n = ''10 mL HenkeJect'' then 20927 else if n = ''5 mL HenkeJect'' then 10800
         else if n = ''2 mL HenkeJect'' then 20003 else 0))"
proof -
  have r: "fst (apply_rates mock ev pf fe sv s) = None"
    using assms(2) by (auto simp add: apply_rates_fst)
  show ?thesis
    using r apply_rates_sent [OF assms(1) r] selected_steps_cases
    by (simp add: apply_rates_pumps store_inputs_pumps calibration_cmd_def)
qed

theorem calibration_command_witness:
  "connected mock_connected \<and>
   sent (trace (snd (apply_rates True all_ok sample_float (\<lambda>a. ''6000'') (\<lambda>a. ''10 mL HenkeJect'')
     mock_connected))) = [''M92 X-20927 Y-20927 Z20927'', ''M302 S0'', ''M211 S0'', ''G91'']"
proof -
  have c: "connected mock_connected" and t: "sent (trace mock_connected) = []"
    by (simp_all add: mock_connected_def connect_serial_def init_state_def emit_def)
  show ?thesis
    using c t calibration_command [of mock_connected True all_ok sample_float "\<lambda>a. ''6000''" "\<lambda>a. ''10 mL HenkeJect''"]
    by (simp add: str_int_def str_nat.simps digit_char_def)
qed

text \<open>
  C7, as the claim states it, fails on a real port: with a text that is not a number in
  every flow entry, connected to a port on which the writes fail, \<^verbatim>\<open>apply_rates\<close>
  raises the error of the failed write to its caller.
\<close>

theorem apply_rates_raises_on_failed_write:
  "sample_float ''abc'' = None \<and>
   fst (apply_rates False write_fails sample_float (\<lambda>a. ''abc'') (\<lambda>a. ''none'') real_connected) =
     Some WriteError"
  using real_connected_facts
  by (simp add: sample_float_def apply_rates_fst write_fails_def)

text \<open>
  C7, amended. When the text in the flow entry of an axis is not a number,
  \<^verbatim>\<open>apply_rates\<close> stores \<^verbatim>\<open>0.0\<close> as the flow of that axis, and the inputs of the
  other axes are applied: every flow that parses is stored as parsed, and every syringe
  selection is stored. The entry raises nothing. The function raises exactly when, on a
  real port and while connected, the write of one of its four commands fails, and it
  then raises the error of that write; otherwise it returns normally.
\<close>

theorem unparseable_flow_is_zero:
  assumes "pf (fe a) = None"
  shows "flow (pumps (snd (apply_rates mock ev pf fe sv s)) a) = float_zero \<and>
    (\<forall>b. flow (pumps (snd (apply_rates mock ev pf fe sv s)) b) =
       (case pf (fe b) of Some v \<Rightarrow> v | None \<Rightarrow> float_zero)) \<and>
    (\<forall>b. syringe (pumps (snd (apply_rates mock ev pf fe sv s)) b) = selected_id (sv b)) \<and>
    fst (apply_rates mock ev pf fe sv s) =
      (if connected s \<and> \<not> mock \<and> ser s \<noteq> None \<and>
          (\<not> write_ok ev (encode_line (calibration_cmd sv)) \<or> \<not> write_ok ev (encode_line ''M302 S0'') \<or>
           \<not> write_ok ev (encode_line ''M211 S0'') \<or> \<not> write_ok ev (encode_line ''G91''))
       then Some WriteError else None)"
  using assms apply_rates_fst [of mock ev pf fe sv s]
  by (simp add: apply_rates_pumps store_inputs_pumps parse_flow_def)

theorem unparseable_flow_is_zero_witness:
  "sample_float ''abc'' = None \<and>
   flow (pumps (snd (apply_rates True all_ok sample_float (\<lambda>a. if a = Y then ''abc'' else ''6000'')
     (\<lambda>a. ''none'') mock_connected)) Y) = float_zero \<and>
   flow (pumps (snd (apply_rates True all_ok sample_float (\<lambda>a. if a = Y then ''abc'' else ''6000'')
     (\<lambda>a. ''none'') mock_connected)) X) = float_of_nat 6000 \<and>
   fst (apply_rates True all_ok sample_float (\<lambda>a. if a = Y then ''abc'' else ''6000'')
     (\<lambda>a. ''none'') mock_connected) = None \<and>
   flow (pumps (snd (apply_rates False write_fails sample_float (\<lambda>a. if a = Y then ''abc'' else ''6000'')
     (\<lambda>a. ''none'') real_connected)) Y) = float_zero \<and>
   fst (apply_rates False write_fails sample_float (\<lambda>a. if a = Y then ''abc'' else ''6000'')
     (\<lambda>a. ''none'') real_connected) = Some WriteError"
  using real_connected_facts
    unparseable_flow_is_zero [of sample_float "\<lambda>a. if a = Y then ''abc'' else ''6000''" Y True all_ok "\<lambda>a. ''none''"
      mock_connected]
    unparseable_flow_is_zero [of sample_float "\<lambda>a. if a = Y then ''abc'' else ''6000''" Y False write_fails "\<lambda>a. ''none''"
      real_connected]
  by (simp add: sample_float_def write_fails_def)

end
